theory Spec2Isabelle
  imports Main "HOL-Library.Word"
begin

section \<open>JavaScript strings and numbers\<close>

text \<open>
  A JavaScript string is a sequence of UTF-16 code units: \<open>length\<close>, \<open>slice\<close>,
  \<open>lastIndexOf\<close> and \<open>charCodeAt\<close> all count code units. A scalar value above U+FFFF
  is a surrogate pair, two code units.

  The offsets of the component are JavaScript numbers. The component computes them by
  addition, subtraction, \<open>Math.min\<close> and \<open>Math.max\<close> from integers, and in one place
  from \<open>undefined\<close>; so a number is an integer or \<open>NaN\<close>.
\<close>

type_synonym code_unit = "16 word"
type_synonym jsstring = "code_unit list"

definition js :: "string \<Rightarrow> jsstring" where
  \<comment> \<open>an ASCII string literal of the source as code units\<close>
  "js s = map (\<lambda>c. of_char c) s"

definition strlen :: "jsstring \<Rightarrow> int" where
  "strlen s = int (length s)"

datatype jsnum = Num int | NaN

fun num_add :: "jsnum \<Rightarrow> jsnum \<Rightarrow> jsnum" where
  "num_add (Num a) (Num b) = Num (a + b)"
| "num_add _ _ = NaN"

fun num_sub :: "jsnum \<Rightarrow> jsnum \<Rightarrow> jsnum" where
  "num_sub (Num a) (Num b) = Num (a - b)"
| "num_sub _ _ = NaN"

fun math_min :: "jsnum \<Rightarrow> jsnum \<Rightarrow> jsnum" where
  "math_min (Num a) (Num b) = Num (min a b)"
| "math_min _ _ = NaN"

fun math_max :: "jsnum \<Rightarrow> jsnum \<Rightarrow> jsnum" where
  "math_max (Num a) (Num b) = Num (max a b)"
| "math_max _ _ = NaN"

fun num_eq :: "jsnum \<Rightarrow> jsnum \<Rightarrow> bool" where
  \<comment> \<open>\<open>===\<close> on numbers: \<open>NaN\<close> equals nothing, itself included\<close>
  "num_eq (Num a) (Num b) = (a = b)"
| "num_eq _ _ = False"

fun num_ge :: "jsnum \<Rightarrow> jsnum \<Rightarrow> bool" where
  \<comment> \<open>\<open>>=\<close> on numbers: false when either side is \<open>NaN\<close>\<close>
  "num_ge (Num a) (Num b) = (a \<ge> b)"
| "num_ge _ _ = False"

fun toInteger :: "jsnum \<Rightarrow> int" where
  \<comment> \<open>the conversion \<open>slice\<close> applies to its arguments: \<open>NaN\<close> becomes 0\<close>
  "toInteger (Num a) = a"
| "toInteger NaN = 0"

definition slice_index :: "int \<Rightarrow> int \<Rightarrow> nat" where
  \<comment> \<open>how \<open>String.prototype.slice\<close> resolves an index: negative counts from the end\<close>
  "slice_index len i = nat (if i < 0 then max (len + i) 0 else min i len)"

definition sliceStr :: "jsstring \<Rightarrow> int \<Rightarrow> int \<Rightarrow> jsstring" where
  \<comment> \<open>\<open>s.slice(a, b)\<close> for arguments already converted by \<open>toInteger\<close>\<close>
  "sliceStr s a b =
     (let lo = slice_index (strlen s) a; hi = slice_index (strlen s) b
      in take (hi - lo) (drop lo s))"

definition slice_from :: "jsstring \<Rightarrow> int \<Rightarrow> jsstring" where
  \<comment> \<open>\<open>s.slice(a)\<close>: the end defaults to the length\<close>
  "slice_from s a = sliceStr s a (strlen s)"

definition lastIndexOf :: "jsstring \<Rightarrow> code_unit \<Rightarrow> int" where
  "lastIndexOf s c =
     (if c \<in> set s then strlen s - 1 - int (length (takeWhile (\<lambda>x. x \<noteq> c) (rev s)))
      else - 1)"

definition startsWith :: "jsstring \<Rightarrow> jsstring \<Rightarrow> bool" where
  "startsWith s p = (take (length p) s = p)"

definition isUpperAZ :: "code_unit \<Rightarrow> bool" where
  "isUpperAZ c = (0x41 \<le> c \<and> c \<le> 0x5A)"

definition isLowerAZ :: "code_unit \<Rightarrow> bool" where
  "isLowerAZ c = (0x61 \<le> c \<and> c \<le> 0x7A)"

definition isDigit09 :: "code_unit \<Rightarrow> bool" where
  "isDigit09 c = (0x30 \<le> c \<and> c \<le> 0x39)"

definition isWhiteSpace :: "code_unit \<Rightarrow> bool" where
  \<comment> \<open>the class \<open>\s\<close> of a JavaScript regular expression, also what \<open>trim\<close> strips\<close>
  "isWhiteSpace c =
     (c \<in> {0x09, 0x0A, 0x0B, 0x0C, 0x0D, 0x20, 0xA0, 0x1680, 0x2028, 0x2029, 0x202F,
            0x205F, 0x3000, 0xFEFF}
      \<or> (0x2000 \<le> c \<and> c \<le> 0x200A))"

definition test_prefix_class :: "jsstring \<Rightarrow> (code_unit \<Rightarrow> bool) \<Rightarrow> jsstring \<Rightarrow> bool" where
  \<comment> \<open>the regular expressions \<open>/^Key[A-Z]$/\<close> and \<open>/^Digit[0-9]$/\<close>: a fixed prefix, then
      exactly one code unit of a class\<close>
  "test_prefix_class pre cls s =
     (length s = length pre + 1 \<and> take (length pre) s = pre \<and> cls (s ! length pre))"

definition test_single :: "(code_unit \<Rightarrow> bool) \<Rightarrow> jsstring \<Rightarrow> bool" where
  \<comment> \<open>\<open>/^[a-zA-Z]$/\<close> and \<open>/^[0-9]$/\<close>: exactly one code unit of a class\<close>
  "test_single cls s = (case s of [c] \<Rightarrow> cls c | _ \<Rightarrow> False)"

definition test_function_key :: "jsstring \<Rightarrow> bool" where
  \<comment> \<open>\<open>/^F\d{1,2}$/\<close>\<close>
  "test_function_key s =
     (case s of
        [] \<Rightarrow> False
      | f # ds \<Rightarrow> f = 0x46 \<and> (length ds = 1 \<or> length ds = 2) \<and> list_all isDigit09 ds)"

definition toLowerCaseAscii :: "jsstring \<Rightarrow> jsstring" where
  \<comment> \<open>\<open>toLowerCase\<close> on the strings the key tables apply it to, which are single letters
      \<open>A\<close>..\<open>Z\<close>; code units outside \<open>A\<close>..\<open>Z\<close> are left alone\<close>
  "toLowerCaseAscii s = map (\<lambda>c. if isUpperAZ c then c + 0x20 else c) s"

definition clamp :: "jsnum \<Rightarrow> int \<Rightarrow> int \<Rightarrow> jsnum" where
  \<comment> \<open>every call passes 0 and a string length as bounds\<close>
  "clamp v lo hi = math_max (Num lo) (math_min (Num hi) v)"

definition toNormalizedRange :: "jsnum \<Rightarrow> jsnum \<Rightarrow> jsnum \<times> jsnum" where
  \<comment> \<open>the object \<open>{start, end}\<close> as a pair\<close>
  "toNormalizedRange s e = (math_min s e, math_max s e)"

definition js_rem :: "int \<Rightarrow> int \<Rightarrow> int" where
  \<comment> \<open>the operator \<open>%\<close>: the remainder takes the sign of the dividend\<close>
  "js_rem a n = sgn a * (\<bar>a\<bar> mod \<bar>n\<bar>)"

section \<open>Keycode resolver\<close>

text \<open>
  The three tables are object literals, declared \<open>Record<string, string>\<close>. Reading
  \<open>table[code]\<close> finds an own entry, or else a member the object inherits from
  \<open>Object.prototype\<close>, or else \<open>undefined\<close>. The inherited members are the built-in
  methods of \<open>Object.prototype\<close> and, under \<open>__proto__\<close>, \<open>Object.prototype\<close> itself.
  A value is modelled by what the component can observe of it: a string; a function,
  with the text it converts to and its \<open>length\<close> property; or \<open>Object.prototype\<close>.

  The text a built-in function converts to is left to the engine by the language
  standard, which fixes its tokens and not its white space. It is the parameter
  \<open>nativeText\<close>, from the name of the function to its text.
\<close>

datatype js_value = JsString jsstring | JsFunction jsstring nat | JsObjectPrototype

definition objectPrototype :: "(jsstring \<Rightarrow> jsstring) \<Rightarrow> (jsstring \<times> js_value) list" where
  "objectPrototype nativeText =
     [(js ''constructor'', JsFunction (nativeText (js ''Object'')) 1),
      (js ''__defineGetter__'', JsFunction (nativeText (js ''__defineGetter__'')) 2),
      (js ''__defineSetter__'', JsFunction (nativeText (js ''__defineSetter__'')) 2),
      (js ''hasOwnProperty'', JsFunction (nativeText (js ''hasOwnProperty'')) 1),
      (js ''__lookupGetter__'', JsFunction (nativeText (js ''__lookupGetter__'')) 1),
      (js ''__lookupSetter__'', JsFunction (nativeText (js ''__lookupSetter__'')) 1),
      (js ''isPrototypeOf'', JsFunction (nativeText (js ''isPrototypeOf'')) 1),
      (js ''propertyIsEnumerable'', JsFunction (nativeText (js ''propertyIsEnumerable'')) 1),
      (js ''toString'', JsFunction (nativeText (js ''toString'')) 0),
      (js ''valueOf'', JsFunction (nativeText (js ''valueOf'')) 0),
      (js ''toLocaleString'', JsFunction (nativeText (js ''toLocaleString'')) 0),
      (js ''__proto__'', JsObjectPrototype)]"

definition getProperty ::
  "(jsstring \<Rightarrow> jsstring) \<Rightarrow> (jsstring \<times> jsstring) list \<Rightarrow> jsstring \<Rightarrow> js_value option" where
  \<comment> \<open>\<open>table[key]\<close>; \<open>None\<close> is \<open>undefined\<close>\<close>
  "getProperty nativeText table key =
     (case map_of table key of
        Some v \<Rightarrow> Some (JsString v)
      | None \<Rightarrow> map_of (objectPrototype nativeText) key)"

definition truthy :: "js_value option \<Rightarrow> bool" where
  \<comment> \<open>\<open>undefined\<close> and the empty string are falsy; functions and objects are truthy\<close>
  "truthy v = (case v of None \<Rightarrow> False | Some (JsString s) \<Rightarrow> s \<noteq> [] | Some _ \<Rightarrow> True)"

definition stringOf :: "js_value \<Rightarrow> jsstring" where
  \<comment> \<open>the string a value becomes when \<open>+\<close> joins it to a string\<close>
  "stringOf v =
     (case v of
        JsString s \<Rightarrow> s
      | JsFunction txt n \<Rightarrow> txt
      | JsObjectPrototype \<Rightarrow> js ''[object Object]'')"

definition lengthOf :: "js_value \<Rightarrow> jsnum" where
  \<comment> \<open>\<open>v.length\<close> as an operand of \<open>+\<close>: \<open>Object.prototype\<close> has no \<open>length\<close>, and
      \<open>undefined\<close> in an addition gives \<open>NaN\<close>\<close>
  "lengthOf v =
     (case v of
        JsString s \<Rightarrow> Num (strlen s)
      | JsFunction txt n \<Rightarrow> Num (int n)
      | JsObjectPrototype \<Rightarrow> NaN)"

definition shiftedNumberMap :: "(jsstring \<times> jsstring) list" where
  "shiftedNumberMap =
     [(js ''Digit1'', js ''!''), (js ''Digit2'', js ''@''), (js ''Digit3'', js ''#''),
      (js ''Digit4'', js ''$''), (js ''Digit5'', js ''%''), (js ''Digit6'', js ''^''),
      (js ''Digit7'', js ''&''), (js ''Digit8'', js ''*''), (js ''Digit9'', js ''(''),
      (js ''Digit0'', js '')'')]"

definition shiftedSymbolMap :: "(jsstring \<times> jsstring) list" where
  "shiftedSymbolMap =
     [(js ''Backquote'', js ''~''), (js ''Minus'', js ''_''), (js ''Equal'', js ''+''),
      (js ''BracketLeft'', js ''{''), (js ''BracketRight'', js ''}''),
      (js ''Backslash'', js ''|''), (js ''Semicolon'', js '':''), (js ''Quote'', [0x22]),
      (js ''Comma'', js ''<''), (js ''Period'', js ''>''), (js ''Slash'', js ''?'')]"

definition unshiftedSymbolMap :: "(jsstring \<times> jsstring) list" where
  "unshiftedSymbolMap =
     [(js ''Backquote'', [0x60]), (js ''Minus'', js ''-''), (js ''Equal'', js ''=''),
      (js ''BracketLeft'', js ''[''), (js ''BracketRight'', js '']''),
      (js ''Backslash'', [0x5C]), (js ''Semicolon'', js '';''), (js ''Quote'', [0x27]),
      (js ''Comma'', js '',''), (js ''Period'', js ''.''), (js ''Slash'', js ''/'')]"

definition forceCodeMappedCodes :: "jsstring list" where
  "forceCodeMappedCodes =
     map fst shiftedNumberMap @ map fst shiftedSymbolMap @ map fst unshiftedSymbolMap @
     [js ''NumpadAdd'', js ''NumpadSubtract'', js ''NumpadMultiply'', js ''NumpadDivide'',
      js ''NumpadDecimal'']"

definition mapPrintableCharacter ::
  "(jsstring \<Rightarrow> jsstring) \<Rightarrow> jsstring \<Rightarrow> bool \<Rightarrow> js_value option" where
  \<comment> \<open>\<open>None\<close> is \<open>null\<close>. In the digit branch the key is one of \<open>Digit0\<close>..\<open>Digit9\<close>,
      all own entries of \<open>shiftedNumberMap\<close>, so the lookup is never \<open>undefined\<close>.\<close>
  "mapPrintableCharacter nativeText kc sh =
     (if kc = js ''Space'' then Some (JsString (js '' ''))
      else if test_prefix_class (js ''Key'') isUpperAZ kc then
        (let letter = slice_from kc 3
         in Some (JsString (if sh then letter else toLowerCaseAscii letter)))
      else if test_prefix_class (js ''Digit'') isDigit09 kc then
        (if sh then getProperty nativeText shiftedNumberMap kc
         else Some (JsString (slice_from kc 5)))
      else if startsWith kc (js ''Numpad'') \<and> strlen kc = strlen (js ''Numpad0'')
              \<and> test_single isDigit09 (slice_from kc (strlen (js ''Numpad''))) then
        Some (JsString (slice_from kc (strlen (js ''Numpad''))))
      else if kc = js ''NumpadAdd'' then Some (JsString (js ''+''))
      else if kc = js ''NumpadSubtract'' then Some (JsString (js ''-''))
      else if kc = js ''NumpadMultiply'' then Some (JsString (js ''*''))
      else if kc = js ''NumpadDivide'' then Some (JsString (js ''/''))
      else if kc = js ''NumpadDecimal'' then Some (JsString (js ''.''))
      else if sh \<and> truthy (getProperty nativeText shiftedSymbolMap kc) then
        getProperty nativeText shiftedSymbolMap kc
      else if \<not> sh \<and> truthy (getProperty nativeText unshiftedSymbolMap kc) then
        getProperty nativeText unshiftedSymbolMap kc
      else None)"

definition nonTextKeyCodes :: "jsstring list" where
  "nonTextKeyCodes =
     [js ''Escape'', js ''Enter'', js ''NumpadEnter'', js ''Tab'', js ''Backspace'',
      js ''Delete'', js ''ArrowLeft'', js ''ArrowRight'', js ''ArrowUp'', js ''ArrowDown'',
      js ''Home'', js ''End'', js ''PageUp'', js ''PageDown'', js ''Insert'',
      js ''CapsLock'', js ''NumLock'', js ''ScrollLock'', js ''Pause'', js ''PrintScreen'',
      js ''ShiftLeft'', js ''ShiftRight'', js ''ControlLeft'', js ''ControlRight'',
      js ''AltLeft'', js ''AltRight'', js ''MetaLeft'', js ''MetaRight'']"

text \<open>
  \<open>for (const char of value)\<close> walks the string by code points: a high surrogate
  followed by a low surrogate is one step of two code units, every other code unit is a
  step of its own. \<open>char.charCodeAt(0)\<close> is the first code unit of the step.
\<close>

definition isHighSurrogate :: "code_unit \<Rightarrow> bool" where
  "isHighSurrogate c = (0xD800 \<le> c \<and> c \<le> 0xDBFF)"

definition isLowSurrogate :: "code_unit \<Rightarrow> bool" where
  "isLowSurrogate c = (0xDC00 \<le> c \<and> c \<le> 0xDFFF)"

fun string_iterator :: "jsstring \<Rightarrow> jsstring list" where
  "string_iterator [] = []"
| "string_iterator [c] = [[c]]"
| "string_iterator (c # d # cs) =
     (if isHighSurrogate c \<and> isLowSurrogate d then [c, d] # string_iterator cs
      else [c] # string_iterator (d # cs))"

definition charCodeAt0 :: "jsstring \<Rightarrow> code_unit option" where
  \<comment> \<open>\<open>charCodeAt(0)\<close>; \<open>None\<close> stands for the \<open>NaN\<close> of an empty string, which fails
      every comparison\<close>
  "charCodeAt0 s = (case s of [] \<Rightarrow> None | c # _ \<Rightarrow> Some c)"

fun hasControlCharacters_loop :: "jsstring list \<Rightarrow> bool" where
  "hasControlCharacters_loop [] = False"
| "hasControlCharacters_loop (ch # rest) =
     (case charCodeAt0 ch of
        None \<Rightarrow> hasControlCharacters_loop rest
      | Some cu \<Rightarrow> if cu < 0x20 \<or> cu = 0x7F then True else hasControlCharacters_loop rest)"

definition hasControlCharacters :: "jsstring \<Rightarrow> bool" where
  "hasControlCharacters v = hasControlCharacters_loop (string_iterator v)"

datatype Phase = Down | Up

record GlobalKeyPayload =
  code :: jsstring
  textOpt :: "jsstring option"  \<comment> \<open>the field \<open>text\<close>: absent, \<open>null\<close> or a string\<close>
  phase :: Phase
  ctrl :: bool
  shift :: bool
  caps :: "bool option"
  alt :: bool
  meta :: bool
  repeat :: bool
  timestamp_ms :: int

definition normalizedText :: "GlobalKeyPayload \<Rightarrow> jsstring" where
  \<comment> \<open>\<open>typeof raw === "string" ? raw.replace(/\r/g, "") : ""\<close>\<close>
  "normalizedText ev =
     (case textOpt ev of None \<Rightarrow> [] | Some raw \<Rightarrow> filter (\<lambda>c. c \<noteq> 0x0D) raw)"

definition hasValidRaw :: "GlobalKeyPayload \<Rightarrow> bool" where
  "hasValidRaw ev =
     (strlen (normalizedText ev) > 0 \<and> \<not> hasControlCharacters (normalizedText ev))"

definition resolveTextFromGlobalEvent ::
  "(jsstring \<Rightarrow> jsstring) \<Rightarrow> GlobalKeyPayload \<Rightarrow> js_value option" where
  "resolveTextFromGlobalEvent nativeText ev =
     (if ctrl ev \<or> meta ev \<or> alt ev then None
      else if code ev \<in> set nonTextKeyCodes then None
      else if test_function_key (code ev) then None
      else
        (let mapped = mapPrintableCharacter nativeText (code ev) (shift ev);
             normalized = normalizedText ev
         in if test_prefix_class (js ''Key'') isUpperAZ (code ev) then
              (if hasValidRaw ev \<and> \<not> test_single (\<lambda>c. isLowerAZ c \<or> isUpperAZ c) normalized
               then Some (JsString normalized)
               else
                 (let letter = slice_from (code ev) 3;
                      uppercase = (shift ev \<noteq> (caps ev = Some True))
                  in Some (JsString (if uppercase then letter else toLowerCaseAscii letter))))
            else if mapped \<noteq> None \<and> code ev \<in> set forceCodeMappedCodes then mapped
            else if \<not> hasValidRaw ev then None
            else Some (JsString normalized)))"

section \<open>The input component: state and edit primitives\<close>

datatype ChatInputKeyAction = Action_none | Action_submit | Action_cancel

datatype ChatInputMode = Ime | Focusless

record EmojiSuggestion =
  emoji :: jsstring
  shortcode :: jsstring

datatype Suggestion = Mention jsstring | Emoji EmojiSuggestion

record ChatInputProps =
  messages :: "jsstring list"  \<comment> \<open>\<open>author.username\<close> of each message, in order\<close>
  maxLength :: int
  mode :: ChatInputMode

text \<open>
  The state a render of the component closes over: the controlled prop \<open>value\<close>, which
  \<open>onChange\<close> replaces, and the five state variables of the component. Every handler
  reads this state and returns the state after its updates.
\<close>

record ChatInputState =
  valueStr :: jsstring
  selectionStart :: jsnum
  selectionEnd :: jsnum
  suggestions :: "Suggestion list"
  showSuggestions :: bool
  activeIndex :: int

datatype js_error = TypeError

record ClipboardBridge =
  write_clipboard_text :: "jsstring \<Rightarrow> bool"  \<comment> \<open>whether the write resolves\<close>
  read_clipboard_text :: "jsstring option"  \<comment> \<open>\<open>None\<close>: the read rejects\<close>

definition updateSelection :: "jsnum \<Rightarrow> jsnum \<Rightarrow> ChatInputState \<Rightarrow> ChatInputState" where
  "updateSelection s e st =
     st\<lparr>selectionStart := clamp s 0 (strlen (valueStr st)),
        selectionEnd := clamp e 0 (strlen (valueStr st))\<rparr>"

definition applyValueAndSelection ::
  "jsstring \<Rightarrow> jsnum \<Rightarrow> jsnum \<Rightarrow> ChatInputState \<Rightarrow> ChatInputState" where
  "applyValueAndSelection nextValue nextSelectionStart nextSelectionEnd st =
     st\<lparr>valueStr := nextValue,
        selectionStart := clamp nextSelectionStart 0 (strlen nextValue),
        selectionEnd := clamp nextSelectionEnd 0 (strlen nextValue)\<rparr>"

text \<open>
  \<open>replaceSelectionWith\<close> is declared for a string, and the fallback of the interpreter
  can hand it whatever \<open>mapPrintableCharacter\<close> found; so it takes a value. \<open>+\<close> converts
  the value to a string, and \<open>insertText.length\<close> is the value's own \<open>length\<close>.
\<close>

definition replaceSelectionWith :: "js_value \<Rightarrow> ChatInputState \<Rightarrow> ChatInputState" where
  "replaceSelectionWith insertText st =
     (let (nstart, nend) = toNormalizedRange (selectionStart st) (selectionEnd st);
          nextValue = sliceStr (valueStr st) 0 (toInteger nstart) @ stringOf insertText
                        @ slice_from (valueStr st) (toInteger nend);
          nextCaret = num_add nstart (lengthOf insertText)
      in applyValueAndSelection nextValue nextCaret nextCaret st)"

definition suggestionReplacement :: "Suggestion \<Rightarrow> jsstring" where
  "suggestionReplacement sg =
     (case sg of Mention u \<Rightarrow> js ''@'' @ u | Emoji e \<Rightarrow> emoji e)"

definition insertSuggestion :: "Suggestion \<Rightarrow> ChatInputState \<Rightarrow> ChatInputState" where
  "insertSuggestion sg st =
     (let (nstart, nend) = toNormalizedRange (selectionStart st) (selectionEnd st);
          before = sliceStr (valueStr st) 0 (toInteger nstart);
          after = slice_from (valueStr st) (toInteger nend);
          lastWhitespace =
            max (max (lastIndexOf before 0x20) (lastIndexOf before 0x09))
                (lastIndexOf before 0x0A);
          wordStart = lastWhitespace + 1;
          nextBefore = sliceStr before 0 wordStart @ suggestionReplacement sg @ js '' '';
          nextValue = nextBefore @ after;
          nextCaret = Num (strlen nextBefore)
      in (applyValueAndSelection nextValue nextCaret nextCaret st)\<lparr>showSuggestions := False\<rparr>)"

definition moveCaret :: "int \<Rightarrow> bool \<Rightarrow> ChatInputState \<Rightarrow> ChatInputState" where
  "moveCaret delta extending st =
     (if extending then
        (let nextEnd = clamp (num_add (selectionEnd st) (Num delta)) 0 (strlen (valueStr st))
         in updateSelection (selectionStart st) nextEnd st)
      else
        (let (nstart, nend) = toNormalizedRange (selectionStart st) (selectionEnd st)
         in if \<not> num_eq (selectionStart st) (selectionEnd st) then
              (let collapsedTo = (if delta < 0 then nstart else nend)
               in updateSelection collapsedTo collapsedTo st)
            else
              (let nxt = clamp (num_add nend (Num delta)) 0 (strlen (valueStr st))
               in updateSelection nxt nxt st)))"

definition moveCaretToBoundary :: "bool \<Rightarrow> bool \<Rightarrow> ChatInputState \<Rightarrow> ChatInputState" where
  "moveCaretToBoundary toEnd extending st =
     (let nxt = (if toEnd then Num (strlen (valueStr st)) else Num 0)
      in if extending then updateSelection (selectionStart st) nxt st
         else updateSelection nxt nxt st)"

definition deleteBackward :: "ChatInputState \<Rightarrow> ChatInputState" where
  "deleteBackward st =
     (let (nstart, nend) = toNormalizedRange (selectionStart st) (selectionEnd st)
      in if \<not> num_eq nstart nend then replaceSelectionWith (JsString []) st
         else if num_eq nstart (Num 0) then st
         else
           (let nextValue = sliceStr (valueStr st) 0 (toInteger (num_sub nstart (Num 1)))
                              @ slice_from (valueStr st) (toInteger nstart);
                nextCaret = num_sub nstart (Num 1)
            in applyValueAndSelection nextValue nextCaret nextCaret st))"

definition deleteForward :: "ChatInputState \<Rightarrow> ChatInputState" where
  "deleteForward st =
     (let (nstart, nend) = toNormalizedRange (selectionStart st) (selectionEnd st)
      in if \<not> num_eq nstart nend then replaceSelectionWith (JsString []) st
         else if num_ge nend (Num (strlen (valueStr st))) then st
         else
           (let nextValue = sliceStr (valueStr st) 0 (toInteger nend)
                              @ slice_from (valueStr st) (toInteger (num_add nend (Num 1)))
            in applyValueAndSelection nextValue nend nend st))"

section \<open>Key event interpreter\<close>

definition handleClipboardShortcut ::
  "ClipboardBridge \<Rightarrow> GlobalKeyPayload \<Rightarrow> ChatInputState \<Rightarrow> bool \<times> ChatInputState" where
  "handleClipboardShortcut bridge ev st =
     (let isCtrlOrMeta = (ctrl ev \<or> meta ev)
      in if \<not> isCtrlOrMeta \<or> alt ev \<or> phase ev \<noteq> Down then (False, st)
         else
           (let (nstart, nend) = toNormalizedRange (selectionStart st) (selectionEnd st);
                selectedText = sliceStr (valueStr st) (toInteger nstart) (toInteger nend)
            in if code ev = js ''KeyA'' then
                 (True, updateSelection (Num 0) (Num (strlen (valueStr st))) st)
               else if code ev = js ''KeyC'' then
                 (if selectedText = [] then (True, st)
                  else if write_clipboard_text bridge selectedText then (True, st)
                  else (True, st))
               else if code ev = js ''KeyX'' then
                 (if selectedText = [] then (True, st)
                  else if write_clipboard_text bridge selectedText
                  then (True, replaceSelectionWith (JsString []) st)
                  else (True, replaceSelectionWith (JsString []) st))
               else if code ev = js ''KeyV'' then
                 (let clipboard = (case read_clipboard_text bridge of None \<Rightarrow> [] | Some t \<Rightarrow> t)
                  in if clipboard = [] then (True, st)
                     else (True, replaceSelectionWith (JsString clipboard) st))
               else (False, st)))"

definition handleFocuslessGlobalKey ::
  "(jsstring \<Rightarrow> jsstring) \<Rightarrow> ClipboardBridge \<Rightarrow> GlobalKeyPayload \<Rightarrow> ChatInputState
     \<Rightarrow> js_error + (ChatInputKeyAction \<times> ChatInputState)" where
  "handleFocuslessGlobalKey nativeText bridge ev st =
     (if phase ev \<noteq> Down then Inr (Action_none, st)
      else
        (case handleClipboardShortcut bridge ev st of
           (True, st') \<Rightarrow> Inr (Action_none, st')
         | (False, _) \<Rightarrow>
             if \<not> ctrl ev \<and> \<not> meta ev \<and> \<not> alt ev then
               (if code ev = js ''Escape'' then Inr (Action_cancel, st)
                else if code ev = js ''ArrowDown'' \<and> showSuggestions st
                        \<and> length (suggestions st) > 0 then
                  Inr (Action_none,
                       st\<lparr>activeIndex :=
                            js_rem (activeIndex st + 1) (int (length (suggestions st)))\<rparr>)
                else if code ev = js ''ArrowUp'' \<and> showSuggestions st
                        \<and> length (suggestions st) > 0 then
                  Inr (Action_none,
                       st\<lparr>activeIndex :=
                            (if activeIndex st = 0 then int (length (suggestions st)) - 1
                             else activeIndex st - 1)\<rparr>)
                else if code ev = js ''Tab'' \<and> showSuggestions st
                        \<and> length (suggestions st) > 0 then
                  (if 0 \<le> activeIndex st \<and> activeIndex st < int (length (suggestions st))
                   then Inr (Action_none,
                             insertSuggestion (suggestions st ! nat (activeIndex st)) st)
                   else Inl TypeError)
                else if code ev = js ''Enter'' \<or> code ev = js ''NumpadEnter'' then
                  Inr (Action_submit, st)
                else if code ev = js ''Backspace'' then Inr (Action_none, deleteBackward st)
                else if code ev = js ''Delete'' then Inr (Action_none, deleteForward st)
                else if code ev = js ''ArrowLeft'' then
                  Inr (Action_none, moveCaret (- 1) (shift ev) st)
                else if code ev = js ''ArrowRight'' then
                  Inr (Action_none, moveCaret 1 (shift ev) st)
                else if code ev = js ''Home'' then
                  Inr (Action_none, moveCaretToBoundary False (shift ev) st)
                else if code ev = js ''End'' then
                  Inr (Action_none, moveCaretToBoundary True (shift ev) st)
                else
                  (case resolveTextFromGlobalEvent nativeText ev of
                     Some textFromEvent \<Rightarrow>
                       Inr (Action_none, replaceSelectionWith textFromEvent st)
                   | None \<Rightarrow>
                       (case mapPrintableCharacter nativeText (code ev) (shift ev) of
                          Some printable \<Rightarrow>
                            Inr (Action_none, replaceSelectionWith printable st)
                        | None \<Rightarrow> Inr (Action_none, st))))
             else Inr (Action_none, st)))"

definition handleGlobalKey ::
  "(jsstring \<Rightarrow> jsstring) \<Rightarrow> ChatInputProps \<Rightarrow> ClipboardBridge \<Rightarrow> GlobalKeyPayload
     \<Rightarrow> ChatInputState \<Rightarrow> js_error + (ChatInputKeyAction \<times> ChatInputState)" where
  "handleGlobalKey nativeText props bridge ev st =
     (if mode props \<noteq> Focusless then Inr (Action_none, st)
      else handleFocuslessGlobalKey nativeText bridge ev st)"

section \<open>Effects and derived values of a render\<close>

definition clampEffect :: "ChatInputState \<Rightarrow> ChatInputState" where
  "clampEffect st =
     (let nxt = clamp (selectionStart st) 0 (strlen (valueStr st));
          nextEnd = clamp (selectionEnd st) 0 (strlen (valueStr st));
          st1 = (if \<not> num_eq nxt (selectionStart st) then st\<lparr>selectionStart := nxt\<rparr> else st)
      in if \<not> num_eq nextEnd (selectionEnd st) then st1\<lparr>selectionEnd := nextEnd\<rparr> else st1)"

definition usernames :: "ChatInputProps \<Rightarrow> jsstring list" where
  \<comment> \<open>\<open>Array.from(new Set(...))\<close>: first occurrences, in insertion order\<close>
  "usernames props = rev (remdups (rev (messages props)))"

fun split_regex :: "(code_unit \<Rightarrow> bool) \<Rightarrow> jsstring \<Rightarrow> jsstring list" where
  \<comment> \<open>\<open>split\<close> on a regular expression that matches one code unit of a class\<close>
  "split_regex sep [] = [[]]"
| "split_regex sep (c # cs) =
     (if sep c then [] # split_regex sep cs
      else (case split_regex sep cs of [] \<Rightarrow> [[c]] | w # ws \<Rightarrow> (c # w) # ws))"

definition lastWordOf :: "jsstring \<Rightarrow> jsstring" where
  \<comment> \<open>\<open>context.split(/\s/).pop() || ""\<close>\<close>
  "lastWordOf context = (case split_regex isWhiteSpace context of [] \<Rightarrow> [] | ws \<Rightarrow> last ws)"

text \<open>
  The effect that recomputes the suggestions. \<open>toLowerCase\<close> on arbitrary text and
  \<open>findEmojiSuggestions\<close> (module \<open>lib/emoji\<close>) are parameters \<open>lower\<close> and \<open>findEmoji\<close>.
\<close>

definition recomputeSuggestions ::
  "(jsstring \<Rightarrow> jsstring) \<Rightarrow> (jsstring \<Rightarrow> EmojiSuggestion list) \<Rightarrow> ChatInputProps
     \<Rightarrow> ChatInputState \<Rightarrow> ChatInputState" where
  "recomputeSuggestions lower findEmoji props st =
     (let hasExplicitSelection = (\<not> num_eq (selectionStart st) (selectionEnd st));
          caret = (if hasExplicitSelection then math_max (selectionStart st) (selectionEnd st)
                   else selectionEnd st);
          context = sliceStr (valueStr st) 0 (toInteger caret);
          lastWord = lastWordOf context;
          (nextSuggestions, shouldShow) =
            (if startsWith lastWord (js ''@'') then
               (let query = lower (slice_from lastWord 1);
                    matches = filter (\<lambda>u. startsWith (lower u) query) (usernames props)
                in (map Mention matches, length matches > 0))
             else if startsWith lastWord (js '':'') then
               (let query = lower (slice_from lastWord 1);
                    matches = findEmoji query
                in (map Emoji matches, length matches > 0))
             else ([], False))
      in st\<lparr>suggestions := nextSuggestions, showSuggestions := shouldShow, activeIndex := 0\<rparr>)"

definition trim :: "jsstring \<Rightarrow> jsstring" where
  "trim s = rev (dropWhile isWhiteSpace (rev (dropWhile isWhiteSpace s)))"

definition remainingChars :: "ChatInputProps \<Rightarrow> ChatInputState \<Rightarrow> int" where
  "remainingChars props st = maxLength props - strlen (trim (valueStr st))"

definition isOverLimit :: "ChatInputProps \<Rightarrow> ChatInputState \<Rightarrow> bool" where
  "isOverLimit props st = (remainingChars props st < 0)"

section \<open>Properties stated over the state\<close>

fun offsetInRange :: "jsnum \<Rightarrow> int \<Rightarrow> bool" where
  "offsetInRange (Num i) n = (0 \<le> i \<and> i \<le> n)"
| "offsetInRange NaN n = False"

definition selectionInBounds :: "ChatInputState \<Rightarrow> bool" where
  "selectionInBounds st =
     (offsetInRange (selectionStart st) (strlen (valueStr st)) \<and>
      offsetInRange (selectionEnd st) (strlen (valueStr st)))"

definition activeIndexInRange :: "ChatInputState \<Rightarrow> bool" where
  \<comment> \<open>the list is shown when \<open>showSuggestions && suggestions.length > 0\<close>\<close>
  "activeIndexInRange st =
     (if showSuggestions st then
        0 \<le> activeIndex st \<and> activeIndex st < int (length (suggestions st))
      else True)"

definition noControlCharacters :: "jsstring \<Rightarrow> bool" where
  "noControlCharacters s = list_all (\<lambda>c. \<not> c < 0x20 \<and> c \<noteq> 0x7F) s"

definition printableText :: "jsstring \<Rightarrow> bool" where
  "printableText t = (t \<noteq> [] \<and> noControlCharacters t)"

definition structuralKeyCodes :: "jsstring list" where
  \<comment> \<open>the codes \<open>handleFocuslessGlobalKey\<close> tests before it comes to text production\<close>
  "structuralKeyCodes =
     [js ''Escape'', js ''ArrowDown'', js ''ArrowUp'', js ''Tab'', js ''Enter'',
      js ''NumpadEnter'', js ''Backspace'', js ''Delete'', js ''ArrowLeft'',
      js ''ArrowRight'', js ''Home'', js ''End'']"

fun isNumber :: "jsnum \<Rightarrow> bool" where
  "isNumber (Num i) = True"
| "isNumber NaN = False"

definition numericSelection :: "ChatInputState \<Rightarrow> bool" where
  \<comment> \<open>both offsets are integers, in range or not\<close>
  "numericSelection st = (isNumber (selectionStart st) \<and> isNumber (selectionEnd st))"

definition lowerEdge :: "ChatInputState \<Rightarrow> int" where
  "lowerEdge st = toInteger (math_min (selectionStart st) (selectionEnd st))"

definition upperEdge :: "ChatInputState \<Rightarrow> int" where
  "upperEdge st = toInteger (math_max (selectionStart st) (selectionEnd st))"

definition editState :: "ChatInputState \<Rightarrow> jsstring \<times> jsnum \<times> jsnum" where
  \<comment> \<open>the content and the two selection offsets\<close>
  "editState st = (valueStr st, selectionStart st, selectionEnd st)"

definition selectedText :: "ChatInputState \<Rightarrow> jsstring" where
  \<comment> \<open>the local \<open>selectedText\<close> of \<open>handleClipboardShortcut\<close>\<close>
  "selectedText st =
     (let (nstart, nend) = toNormalizedRange (selectionStart st) (selectionEnd st)
      in sliceStr (valueStr st) (toInteger nstart) (toInteger nend))"

definition isScalarValue :: "jsstring \<Rightarrow> bool" where
  \<comment> \<open>a string that holds exactly one Unicode scalar value: one code unit outside the
      surrogate range, or a high surrogate followed by a low surrogate\<close>
  "isScalarValue s =
     (case s of
        [c] \<Rightarrow> \<not> isHighSurrogate c \<and> \<not> isLowSurrogate c
      | [c, d] \<Rightarrow> isHighSurrogate c \<and> isLowSurrogate d
      | _ \<Rightarrow> False)"

definition sessionState :: "ChatInputState \<Rightarrow> Suggestion list \<times> bool \<times> int" where
  \<comment> \<open>the suggestion session: candidates, visibility flag and active index\<close>
  "sessionState st = (suggestions st, showSuggestions st, activeIndex st)"

definition isLetterKey :: "jsstring \<Rightarrow> bool" where
  \<comment> \<open>a plain letter key: \<open>/^Key[A-Z]$/\<close>\<close>
  "isLetterKey kc = test_prefix_class (js ''Key'') isUpperAZ kc"

definition isAsciiLetter :: "code_unit \<Rightarrow> bool" where
  \<comment> \<open>the class \<open>[a-zA-Z]\<close>\<close>
  "isAsciiLetter c = (isLowerAZ c \<or> isUpperAZ c)"

definition plainWordStart :: "jsstring \<Rightarrow> int" where
  \<comment> \<open>the local \<open>wordStart\<close> of \<open>insertSuggestion\<close>: the position after the last space, tab
      or newline of the text\<close>
  "plainWordStart before =
     max (max (lastIndexOf before 0x20) (lastIndexOf before 0x09)) (lastIndexOf before 0x0A) + 1"

definition lastWhitespaceIsPlain :: "jsstring \<Rightarrow> bool" where
  \<comment> \<open>the last whitespace of the text, if it has any, is a space, a tab or a newline\<close>
  "lastWhitespaceIsPlain b =
     (case dropWhile (\<lambda>c. \<not> isWhiteSpace c) (rev b) of
        [] \<Rightarrow> True
      | w # ws \<Rightarrow> w = 0x20 \<or> w = 0x09 \<or> w = 0x0A)"

definition wordBeforeSelection :: "ChatInputState \<Rightarrow> jsstring" where
  \<comment> \<open>the current word, as the recompute effect finds it, of the text before the lower
      edge of the selection\<close>
  "wordBeforeSelection st =
     lastWordOf (sliceStr (valueStr st) 0 (lowerEdge st))"

text \<open>
  The insertion as the specification words it (section 4.3), to compare with
  \<open>insertSuggestion\<close>: the caret is the larger offset when a selection exists; the current
  word is the last whitespace-separated token of the text before the caret; the text from
  the start of that word through the caret is replaced by the replacement and a space.
\<close>

definition spec_caret :: "ChatInputState \<Rightarrow> int" where
  "spec_caret st =
     toInteger
       (if selectionStart st \<noteq> selectionEnd st
        then math_max (selectionStart st) (selectionEnd st) else selectionEnd st)"

definition spec_insertSuggestion :: "Suggestion \<Rightarrow> ChatInputState \<Rightarrow> ChatInputState" where
  "spec_insertSuggestion sg st =
     (let caret = spec_caret st;
          currentWord = lastWordOf (sliceStr (valueStr st) 0 caret);
          wordStart = caret - strlen currentWord;
          inserted = suggestionReplacement sg @ js '' ''
      in st\<lparr>valueStr := sliceStr (valueStr st) 0 wordStart @ inserted
                            @ slice_from (valueStr st) caret,
            selectionStart := Num (wordStart + strlen inserted),
            selectionEnd := Num (wordStart + strlen inserted),
            showSuggestions := False\<rparr>)"

section \<open>Example inputs\<close>

definition keyDown :: "string \<Rightarrow> bool \<Rightarrow> jsstring option \<Rightarrow> GlobalKeyPayload" where
  \<comment> \<open>a key-down event without ctrl, meta or alt\<close>
  "keyDown kc sh txt =
     \<lparr>code = js kc, textOpt = txt, phase = Down, ctrl = False, shift = sh, caps = None,
      alt = False, meta = False, repeat = False, timestamp_ms = 0\<rparr>"

definition ctrlDown :: "string \<Rightarrow> GlobalKeyPayload" where
  \<comment> \<open>a key-down event with ctrl held\<close>
  "ctrlDown kc = (keyDown kc False None)\<lparr>ctrl := True\<rparr>"

definition textState :: "string \<Rightarrow> int \<Rightarrow> int \<Rightarrow> ChatInputState" where
  \<comment> \<open>a state with the given content and selection and no suggestions\<close>
  "textState v s e =
     \<lparr>valueStr = js v, selectionStart = Num s, selectionEnd = Num e, suggestions = [],
      showSuggestions = False, activeIndex = 0\<rparr>"

definition failingBridge :: ClipboardBridge where
  "failingBridge = \<lparr>write_clipboard_text = (\<lambda>_. False), read_clipboard_text = None\<rparr>"

definition focuslessProps :: ChatInputProps where
  "focuslessProps = \<lparr>messages = [], maxLength = 200, mode = Focusless\<rparr>"

definition grinningFace :: jsstring where
  \<comment> \<open>U+1F600 as its surrogate pair\<close>
  "grinningFace = [0xD83D, 0xDE00]"

definition aliceProps :: ChatInputProps where
  "aliceProps = \<lparr>messages = [js ''alice'', js ''albert'', js ''bob'', js ''alice''],
     maxLength = 200, mode = Focusless\<rparr>"

definition noEmoji :: "jsstring \<Rightarrow> EmojiSuggestion list" where
  "noEmoji q = []"

definition mentionSession :: "int \<Rightarrow> ChatInputState" where
  "mentionSession i =
     \<lparr>valueStr = js ''hello @al'', selectionStart = Num 9, selectionEnd = Num 9,
      suggestions = [Mention (js ''alice''), Mention (js ''albert'')],
      showSuggestions = True, activeIndex = i\<rparr>"

definition selectedSession :: ChatInputState where
  "selectedSession =
     \<lparr>valueStr = js ''x @al'', selectionStart = Num 0, selectionEnd = Num 5,
      suggestions = [Mention (js ''alice''), Mention (js ''albert'')],
      showSuggestions = True, activeIndex = 0\<rparr>"

definition pastingBridge :: "jsstring \<Rightarrow> ClipboardBridge" where
  "pastingBridge t = \<lparr>write_clipboard_text = (\<lambda>_. True), read_clipboard_text = Some t\<rparr>"

definition tinyProps :: ChatInputProps where
  "tinyProps = \<lparr>messages = [], maxLength = 3, mode = Focusless\<rparr>"

definition wideSpaceSession :: ChatInputState where
  \<comment> \<open>\<open>a\<close>, the ideographic space U+3000 and \<open>@al\<close>, caret at the end, as the recompute
      effect leaves it\<close>
  "wideSpaceSession =
     \<lparr>valueStr = [0x61, 0x3000] @ js ''@al'', selectionStart = Num 5, selectionEnd = Num 5,
      suggestions = [Mention (js ''alice''), Mention (js ''albert'')],
      showSuggestions = True, activeIndex = 0\<rparr>"

text \<open>
  Two renderings of a built-in function: on one line, as V8 prints it, and with the body
  on a line of its own, as JavaScriptCore and SpiderMonkey print it.
\<close>

definition oneLineNativeText :: "jsstring \<Rightarrow> jsstring" where
  "oneLineNativeText name = js ''function '' @ name @ js ''() { [native code] }''"

definition multiLineNativeText :: "jsstring \<Rightarrow> jsstring" where
  "multiLineNativeText name =
     js ''function '' @ name @ js ''() {'' @ [0x0A] @ js ''    [native code]'' @ [0x0A]
       @ js ''}''"

section \<open>Basic facts about strings\<close>

lemma slice_0_take: "0 \<le> n \<Longrightarrow> sliceStr s 0 n = take (nat n) s"
  by (simp add: sliceStr_def slice_index_def strlen_def min_def)

lemma slice_from_drop: "0 \<le> n \<Longrightarrow> slice_from s n = drop (nat n) s"
  by (simp add: slice_from_def sliceStr_def slice_index_def strlen_def min_def)

lemma slice_take_drop:
  "0 \<le> a \<Longrightarrow> a \<le> b \<Longrightarrow> sliceStr s a b = take (nat b - nat a) (drop (nat a) s)"
  by (simp add: sliceStr_def slice_index_def strlen_def min_def Let_def)

lemma test_prefix_classD:
  assumes "test_prefix_class pre cls s"
  shows "\<exists>c. s = pre @ [c] \<and> cls c"
proof -
  from assms have l: "length s = length pre + 1" and t: "take (length pre) s = pre"
    and c: "cls (s ! length pre)"
    by (simp_all add: test_prefix_class_def)
  have "s = take (length pre) s @ drop (length pre) s" by simp
  moreover have "drop (length pre) s = [s ! length pre]"
    using l by (metis Cons_nth_drop_Suc Suc_eq_plus1 drop_all lessI order_refl)
  ultimately have "s = pre @ [s ! length pre]" using t by metis
  then show ?thesis using c by blast
qed

lemma test_singleD: "test_single cls s \<Longrightarrow> \<exists>c. s = [c] \<and> cls c"
  by (auto simp: test_single_def split: list.splits)

lemma key_letter:
  "test_prefix_class (js ''Key'') isUpperAZ kc \<Longrightarrow>
   \<exists>c. kc = js ''Key'' @ [c] \<and> isUpperAZ c \<and> slice_from kc 3 = [c]"
  by (drule test_prefix_classD) (auto simp: slice_from_drop js_def)

lemma digit_key:
  "test_prefix_class (js ''Digit'') isDigit09 kc \<Longrightarrow>
   \<exists>c. kc = js ''Digit'' @ [c] \<and> isDigit09 c \<and> slice_from kc 5 = [c]"
  by (drule test_prefix_classD) (auto simp: slice_from_drop js_def)

lemma of_char_word_inj: "((of_char x :: code_unit) = of_char y) = (x = y)"
proof
  assume a: "(of_char x :: code_unit) = of_char y"
  have lt: "\<And>c. (of_char c :: nat) < 65536"
  proof -
    fix c :: char
    have "(of_char c :: nat) mod 256 = of_char c" by simp
    then have "(of_char c :: nat) < 256" by (metis mod_less_divisor zero_less_numeral)
    then show "(of_char c :: nat) < 65536" by linarith
  qed
  have u: "\<And>c. unat (of_char c :: code_unit) = of_char c"
  proof -
    fix c :: char
    have "unat (of_nat (of_char c :: nat) :: code_unit) = of_char c"
      using lt [of c] by (simp add: unat_of_nat)
    then show "unat (of_char c :: code_unit) = of_char c" by (simp only: of_nat_of_char)
  qed
  from a have "unat (of_char x :: code_unit) = unat (of_char y :: code_unit)" by simp
  then have "(of_char x :: nat) = of_char y" by (simp only: u)
  then show "x = y" by simp
next
  assume "x = y" then show "(of_char x :: code_unit) = of_char y" by simp
qed

lemma js_inject [simp]: "(js a = js b) = (a = b)"
proof -
  have "inj (of_char :: char \<Rightarrow> code_unit)"
    by (rule injI) (simp add: of_char_word_inj)
  then show ?thesis by (simp add: js_def inj_map_eq_map)
qed

lemma length_js [simp]: "length (js s) = length s"
  by (simp add: js_def)

lemma strlen_js [simp]: "strlen (js s) = int (length s)"
  by (simp add: strlen_def)

lemma take_js [simp]: "take n (js s) = js (take n s)"
  by (simp add: js_def take_map)

lemma drop_js [simp]: "drop n (js s) = js (drop n s)"
  by (simp add: js_def drop_map)

lemma nth_js: "n < length s \<Longrightarrow> js s ! n = of_char (s ! n)"
  by (simp add: js_def)

lemma js_Nil [simp]: "js [] = []"
  by (simp add: js_def)

lemma js_eq_Nil [simp]: "(js s = []) = (s = [])"
  by (simp add: js_def)

lemma startsWith_js [simp]: "startsWith (js s) (js p) = (take (length p) s = p)"
  by (simp add: startsWith_def)

lemma slice_from_js: "0 \<le> n \<Longrightarrow> slice_from (js s) n = js (drop (nat n) s)"
  by (simp add: slice_from_drop)

lemma js_Cons: "js (c # s) = of_char c # js s"
  by (simp add: js_def)

lemma strlen_nonneg: "0 \<le> strlen s"
  by (simp add: strlen_def)

lemma strlen_Nil: "strlen [] = 0"
  by (simp add: strlen_def)

section \<open>Facts about numbers and offsets\<close>

lemma clamp_bounds: "0 \<le> hi \<Longrightarrow> offsetInRange (clamp (Num v) 0 hi) hi"
  by (auto simp: clamp_def)

lemma clamp_id: "0 \<le> v \<Longrightarrow> v \<le> hi \<Longrightarrow> clamp (Num v) 0 hi = Num v"
  by (auto simp: clamp_def)

lemma clamp_NaN: "clamp NaN lo hi = NaN"
  by (simp add: clamp_def)

lemma clamp_isNumber: "isNumber v \<Longrightarrow> 0 \<le> hi \<Longrightarrow> offsetInRange (clamp v 0 hi) hi"
  by (cases v) (simp_all add: clamp_bounds)

lemma isNumber_math [simp]:
  "isNumber (math_min a b) = (isNumber a \<and> isNumber b)"
  "isNumber (math_max a b) = (isNumber a \<and> isNumber b)"
  "isNumber (num_add a b) = (isNumber a \<and> isNumber b)"
  "isNumber (num_sub a b) = (isNumber a \<and> isNumber b)"
  by (cases a; cases b; simp)+

lemma isNumber_clamp [simp]: "isNumber (clamp v lo hi) = isNumber v"
  by (simp add: clamp_def)

lemma offsetInRange_isNumber: "offsetInRange v n \<Longrightarrow> isNumber v"
  by (cases v) simp_all

lemma inBounds_numeric: "selectionInBounds st \<Longrightarrow> numericSelection st"
  by (auto simp: selectionInBounds_def numericSelection_def dest: offsetInRange_isNumber)

lemma inBoundsE:
  assumes "selectionInBounds st"
  obtains s e where "selectionStart st = Num s" and "selectionEnd st = Num e"
    and "0 \<le> s" and "s \<le> strlen (valueStr st)"
    and "0 \<le> e" and "e \<le> strlen (valueStr st)"
  using assms
  by (cases "selectionStart st"; cases "selectionEnd st") (simp_all add: selectionInBounds_def)

lemma numericE:
  assumes "numericSelection st"
  obtains s e where "selectionStart st = Num s" and "selectionEnd st = Num e"
  using assms
  by (cases "selectionStart st"; cases "selectionEnd st") (simp_all add: numericSelection_def)

section \<open>Control characters\<close>

lemma low_surrogate_not_control: "isLowSurrogate d \<Longrightarrow> \<not> d < 0x20 \<and> d \<noteq> 0x7F"
  by (auto simp: isLowSurrogate_def word_le_nat_alt word_less_nat_alt)

lemma hasControlCharacters_loop_iff:
  "hasControlCharacters_loop (string_iterator v) = (\<exists>c\<in>set v. c < 0x20 \<or> c = 0x7F)"
proof (induction v rule: string_iterator.induct)
  case 1
  then show ?case by simp
next
  case (2 c)
  then show ?case by (simp add: charCodeAt0_def)
next
  case (3 c d cs)
  then show ?case
    using low_surrogate_not_control [of d]
    by (auto simp: charCodeAt0_def)
qed

lemma hasControlCharacters_iff: "hasControlCharacters v = (\<not> noControlCharacters v)"
  by (auto simp: hasControlCharacters_def hasControlCharacters_loop_iff
      noControlCharacters_def list_all_iff)

lemma upper_printable:
  "isUpperAZ c \<Longrightarrow> printableText [c] \<and> printableText (toLowerCaseAscii [c])"
  by (auto simp: printableText_def noControlCharacters_def isUpperAZ_def
      toLowerCaseAscii_def word_le_nat_alt word_less_nat_alt unat_word_ariths)

lemma digit_printable: "isDigit09 c \<Longrightarrow> printableText [c]"
  by (auto simp: printableText_def noControlCharacters_def isDigit09_def
      word_le_nat_alt word_less_nat_alt)

section \<open>Facts about the keycode resolver\<close>

lemma map_of_all: "map_of tbl k = Some v \<Longrightarrow> list_all (\<lambda>(k, v). P v) tbl \<Longrightarrow> P v"
  by (auto dest!: map_of_SomeD simp: list_all_iff)

lemma shiftedNumberMap_printable: "list_all (\<lambda>(k, v). printableText v) shiftedNumberMap"
  by (simp add: shiftedNumberMap_def printableText_def noControlCharacters_def js_def)

lemma shiftedSymbolMap_printable: "list_all (\<lambda>(k, v). printableText v) shiftedSymbolMap"
  by (simp add: shiftedSymbolMap_def printableText_def noControlCharacters_def js_def)

lemma unshiftedSymbolMap_printable:
  "list_all (\<lambda>(k, v). printableText v) unshiftedSymbolMap"
  by (simp add: unshiftedSymbolMap_def printableText_def noControlCharacters_def js_def)

lemma getProperty_cases:
  assumes "getProperty nativeText tbl k = Some v"
  shows "(\<exists>t. map_of tbl k = Some t \<and> v = JsString t) \<or>
         (map_of tbl k = None \<and> map_of (objectPrototype nativeText) k = Some v)"
  using assms by (auto simp: getProperty_def split: option.splits)

lemma getProperty_printable:
  assumes "getProperty nativeText tbl k = Some v"
    and "list_all (\<lambda>(k, v). printableText v) tbl"
  shows "(\<exists>t. v = JsString t \<and> printableText t) \<or>
         map_of (objectPrototype nativeText) k = Some v"
  using getProperty_cases [OF assms(1)] map_of_all [OF _ assms(2)] by blast

text \<open>
  What \<open>mapPrintableCharacter\<close> returns is a printable string of the tables, or the member
  of \<open>Object.prototype\<close> that has the code for its name.
\<close>

lemma mapPrintableCharacter_cases:
  assumes "mapPrintableCharacter nativeText kc sh = Some v"
  shows "(\<exists>t. v = JsString t \<and> printableText t) \<or>
         map_of (objectPrototype nativeText) kc = Some v"
proof -
  have sp: "printableText (js '' '')" "printableText (js ''+'')" "printableText (js ''-'')"
    "printableText (js ''*'')" "printableText (js ''/'')" "printableText (js ''.'')"
    by (simp_all add: printableText_def noControlCharacters_def js_def)
  show ?thesis
    using assms sp
    apply (simp add: mapPrintableCharacter_def Let_def split: if_splits)
    apply (auto dest!: key_letter digit_key test_singleD
        simp: upper_printable digit_printable
        dest: getProperty_printable [OF _ shiftedNumberMap_printable]
              getProperty_printable [OF _ shiftedSymbolMap_printable]
              getProperty_printable [OF _ unshiftedSymbolMap_printable])
    done
qed

lemma inherited_names:
  "map_of (objectPrototype nativeText) kc \<noteq> None \<Longrightarrow>
   kc \<in> {js ''constructor'', js ''__defineGetter__'', js ''__defineSetter__'',
          js ''hasOwnProperty'', js ''__lookupGetter__'', js ''__lookupSetter__'',
          js ''isPrototypeOf'', js ''propertyIsEnumerable'', js ''toString'', js ''valueOf'',
          js ''toLocaleString'', js ''__proto__''}"
  by (simp add: objectPrototype_def split: if_splits)

lemma forced_not_inherited:
  assumes "kc \<in> set forceCodeMappedCodes"
  shows "map_of (objectPrototype nativeText) kc = None"
proof (rule ccontr)
  assume "map_of (objectPrototype nativeText) kc \<noteq> None"
  from inherited_names [OF this] assms show False
    by (auto simp: forceCodeMappedCodes_def shiftedNumberMap_def shiftedSymbolMap_def
        unshiftedSymbolMap_def)
qed

lemma digit_codes_mapped:
  assumes "kc \<in> set (map fst shiftedNumberMap)"
  shows "(\<exists>m. mapPrintableCharacter nativeText kc sh = Some (JsString m)) \<and> \<not> isLetterKey kc"
  using assms
  by (auto simp: shiftedNumberMap_def mapPrintableCharacter_def isLetterKey_def
      test_prefix_class_def nth_js isDigit09_def getProperty_def)

lemma symbol_codes_mapped:
  assumes "kc \<in> set (map fst shiftedSymbolMap) \<or> kc \<in> set (map fst unshiftedSymbolMap)"
  shows "(\<exists>m. mapPrintableCharacter nativeText kc sh = Some (JsString m)) \<and> \<not> isLetterKey kc"
  using assms
  by (auto simp: shiftedSymbolMap_def unshiftedSymbolMap_def mapPrintableCharacter_def
      isLetterKey_def test_prefix_class_def getProperty_def truthy_def)

lemma numpad_codes_mapped:
  assumes "kc \<in> {js ''NumpadAdd'', js ''NumpadSubtract'', js ''NumpadMultiply'',
      js ''NumpadDivide'', js ''NumpadDecimal''}"
  shows "(\<exists>m. mapPrintableCharacter nativeText kc sh = Some (JsString m)) \<and> \<not> isLetterKey kc"
  using assms
  by (auto simp: mapPrintableCharacter_def isLetterKey_def test_prefix_class_def)

lemma forced_code_mapped:
  assumes "kc \<in> set forceCodeMappedCodes"
  shows "(\<exists>m. mapPrintableCharacter nativeText kc sh = Some (JsString m)) \<and> \<not> isLetterKey kc"
proof -
  from assms consider "kc \<in> set (map fst shiftedNumberMap)"
    | "kc \<in> set (map fst shiftedSymbolMap) \<or> kc \<in> set (map fst unshiftedSymbolMap)"
    | "kc \<in> {js ''NumpadAdd'', js ''NumpadSubtract'', js ''NumpadMultiply'',
      js ''NumpadDivide'', js ''NumpadDecimal''}"
    unfolding forceCodeMappedCodes_def by auto
  then show ?thesis
    using digit_codes_mapped symbol_codes_mapped numpad_codes_mapped by cases blast+
qed

text \<open>
  \<open>resolveTextFromGlobalEvent\<close> hands on what \<open>mapPrintableCharacter\<close> found only for a
  code of \<open>forceCodeMappedCodes\<close>, and none of these names a member of \<open>Object.prototype\<close>:
  what it returns is a printable string.
\<close>

lemma resolveText_printable:
  assumes "resolveTextFromGlobalEvent nativeText ev = Some v"
  shows "\<exists>t. v = JsString t \<and> printableText t"
proof -
  have p: "hasValidRaw ev \<Longrightarrow> printableText (normalizedText ev)"
    by (simp add: hasValidRaw_def printableText_def hasControlCharacters_iff strlen_def)
  show ?thesis
  proof (cases "test_prefix_class (js ''Key'') isUpperAZ (code ev)")
    case True
    then obtain c where "isUpperAZ c" "slice_from (code ev) 3 = [c]"
      using key_letter by blast
    then show ?thesis
      using assms True p upper_printable [of c]
      by (auto simp: resolveTextFromGlobalEvent_def Let_def split: if_splits)
  next
    case False
    have f: "code ev \<in> set forceCodeMappedCodes \<Longrightarrow>
        mapPrintableCharacter nativeText (code ev) (shift ev) = Some v \<Longrightarrow>
        \<exists>t. v = JsString t \<and> printableText t"
      using mapPrintableCharacter_cases [of nativeText "code ev" "shift ev" v]
        forced_not_inherited [of "code ev" nativeText]
      by auto
    show ?thesis
      using assms p False f
      by (auto simp: resolveTextFromGlobalEvent_def Let_def split: if_splits)
  qed
qed

lemma normalizedText_valid:
  assumes "textOpt ev = Some t" and "noControlCharacters t"
  shows "normalizedText ev = t"
proof -
  have "\<forall>c\<in>set t. c \<noteq> 0x0D"
    using assms(2) by (auto simp: noControlCharacters_def list_all_iff)
  then have "filter (\<lambda>c. c \<noteq> 0x0D) t = t" by (simp add: filter_id_conv)
  then show ?thesis using assms(1) by (simp add: normalizedText_def)
qed

lemma hasValidRaw_valid:
  assumes "textOpt ev = Some t" and "t \<noteq> []" and "noControlCharacters t"
  shows "hasValidRaw ev"
  using assms normalizedText_valid [OF assms(1,3)]
  by (simp add: hasValidRaw_def hasControlCharacters_iff strlen_def)

lemma structural_subset: "set structuralKeyCodes \<subseteq> set nonTextKeyCodes"
  by (simp add: structuralKeyCodes_def nonTextKeyCodes_def)

lemma no_clipboard_without_ctrl_meta:
  "\<not> ctrl ev \<and> \<not> meta ev \<Longrightarrow> handleClipboardShortcut bridge ev st = (False, st)"
  by (simp add: handleClipboardShortcut_def)

lemma text_production_step:
  assumes a: "phase ev = Down \<and> \<not> ctrl ev \<and> \<not> meta ev \<and> \<not> alt ev
      \<and> code ev \<notin> set structuralKeyCodes"
  shows "handleFocuslessGlobalKey nativeText bridge ev st =
      (case resolveTextFromGlobalEvent nativeText ev of
         Some textFromEvent \<Rightarrow> Inr (Action_none, replaceSelectionWith textFromEvent st)
       | None \<Rightarrow>
          (case mapPrintableCharacter nativeText (code ev) (shift ev) of
             Some pr \<Rightarrow> Inr (Action_none, replaceSelectionWith pr st)
           | None \<Rightarrow> Inr (Action_none, st)))"
proof -
  from a have clip: "handleClipboardShortcut bridge ev st = (False, st)"
    by (simp add: no_clipboard_without_ctrl_meta)
  show ?thesis
    using a clip by (simp add: handleFocuslessGlobalKey_def structuralKeyCodes_def)
qed

text \<open>
  The text-production step leaves the state alone, inserts a printable string, or inserts
  the member of \<open>Object.prototype\<close> that has the code for its name.
\<close>

lemma text_production_inserts:
  assumes a: "phase ev = Down \<and> \<not> ctrl ev \<and> \<not> meta ev \<and> \<not> alt ev
      \<and> code ev \<notin> set structuralKeyCodes"
  shows "handleFocuslessGlobalKey nativeText bridge ev st = Inr (Action_none, st) \<or>
    (\<exists>ins. printableText ins \<and>
       handleFocuslessGlobalKey nativeText bridge ev st
         = Inr (Action_none, replaceSelectionWith (JsString ins) st)) \<or>
    (\<exists>v. map_of (objectPrototype nativeText) (code ev) = Some v \<and>
       handleFocuslessGlobalKey nativeText bridge ev st
         = Inr (Action_none, replaceSelectionWith v st))"
proof (cases "resolveTextFromGlobalEvent nativeText ev")
  case (Some u)
  then show ?thesis
    using text_production_step [OF a, of nativeText bridge st]
      resolveText_printable [of nativeText ev u]
    by auto
next
  case None
  show ?thesis
  proof (cases "mapPrintableCharacter nativeText (code ev) (shift ev)")
    case (Some u)
    then show ?thesis
      using text_production_step [OF a, of nativeText bridge st] None
        mapPrintableCharacter_cases [of nativeText "code ev" "shift ev" u]
      by auto
  next
    case None2: None
    then show ?thesis using text_production_step [OF a, of nativeText bridge st] None by simp
  qed
qed

section \<open>Facts about the edit primitives\<close>

lemma inBounds_updateSelection:
  "isNumber s \<Longrightarrow> isNumber e \<Longrightarrow> selectionInBounds (updateSelection s e st)"
  by (simp add: selectionInBounds_def updateSelection_def clamp_isNumber strlen_nonneg)

lemma inBounds_applyValueAndSelection:
  "isNumber s \<Longrightarrow> isNumber e \<Longrightarrow> selectionInBounds (applyValueAndSelection v s e st)"
  by (simp add: selectionInBounds_def applyValueAndSelection_def clamp_isNumber strlen_nonneg)

lemma inBounds_replaceSelectionWith:
  "numericSelection st \<Longrightarrow> isNumber (lengthOf v) \<Longrightarrow>
   selectionInBounds (replaceSelectionWith v st)"
  by (simp add: replaceSelectionWith_def toNormalizedRange_def Let_def numericSelection_def
      inBounds_applyValueAndSelection)

lemma isNumber_lengthOf_string [simp]: "isNumber (lengthOf (JsString s))"
  by (simp add: lengthOf_def)

lemma inBounds_insertSuggestion: "selectionInBounds (insertSuggestion sg st)"
  by (simp add: insertSuggestion_def Let_def inBounds_applyValueAndSelection
      selectionInBounds_def [of "_\<lparr>showSuggestions := False\<rparr>"]
      selectionInBounds_def [symmetric] split: prod.split)

lemma inBounds_moveCaret:
  "numericSelection st \<Longrightarrow> selectionInBounds (moveCaret delta ext st)"
  by (simp add: moveCaret_def toNormalizedRange_def Let_def numericSelection_def
      inBounds_updateSelection)

lemma inBounds_moveCaretToBoundary:
  "numericSelection st \<Longrightarrow> selectionInBounds (moveCaretToBoundary toEnd ext st)"
  by (simp add: moveCaretToBoundary_def Let_def numericSelection_def inBounds_updateSelection)

lemma inBounds_deleteBackward:
  "numericSelection st \<Longrightarrow> deleteBackward st = st \<or> selectionInBounds (deleteBackward st)"
  by (simp add: deleteBackward_def toNormalizedRange_def Let_def numericSelection_def
      inBounds_applyValueAndSelection inBounds_replaceSelectionWith)

lemma inBounds_deleteForward:
  "numericSelection st \<Longrightarrow> deleteForward st = st \<or> selectionInBounds (deleteForward st)"
  by (simp add: deleteForward_def toNormalizedRange_def Let_def numericSelection_def
      inBounds_applyValueAndSelection inBounds_replaceSelectionWith)

lemma inBounds_deleteBackward_edit:
  "numericSelection st \<Longrightarrow>
   editState (deleteBackward st) = editState st \<or> selectionInBounds (deleteBackward st)"
  using inBounds_deleteBackward [of st] by auto

lemma inBounds_deleteForward_edit:
  "numericSelection st \<Longrightarrow>
   editState (deleteForward st) = editState st \<or> selectionInBounds (deleteForward st)"
  using inBounds_deleteForward [of st] by auto

lemma inBounds_clampEffect:
  assumes "numericSelection st"
  shows "selectionInBounds (clampEffect st)"
proof -
  from assms obtain s e where n: "selectionStart st = Num s" "selectionEnd st = Num e"
    by (rule numericE)
  show ?thesis
    using strlen_nonneg [of "valueStr st"]
    by (auto simp: clampEffect_def Let_def selectionInBounds_def n clamp_def)
qed

text \<open>
  The clamp effect passes \<open>NaN\<close> through: \<open>Math.min\<close> and \<open>Math.max\<close> answer \<open>NaN\<close> when an
  argument is \<open>NaN\<close>.
\<close>

lemma clampEffect_NaN:
  "selectionStart st = NaN \<Longrightarrow> selectionEnd st = NaN \<Longrightarrow> clampEffect st = st"
  by (simp add: clampEffect_def Let_def clamp_NaN)

lemma inBounds_clipboard:
  "numericSelection st \<Longrightarrow> handleClipboardShortcut bridge ev st = (b, st') \<Longrightarrow>
   st' = st \<or> selectionInBounds st'"
  by (auto simp: handleClipboardShortcut_def Let_def inBounds_updateSelection
      inBounds_replaceSelectionWith split: prod.splits if_splits)

lemma selectionInBounds_activeIndex [simp]:
  "selectionInBounds (st\<lparr>activeIndex := i\<rparr>) = selectionInBounds st"
  by (simp add: selectionInBounds_def)

lemma editState_activeIndex [simp]: "editState (st\<lparr>activeIndex := i\<rparr>) = editState st"
  by (simp add: editState_def)

text \<open>
  Of the members of \<open>Object.prototype\<close> only \<open>Object.prototype\<close> itself, under the name
  \<open>__proto__\<close>, has no numeric \<open>length\<close>.
\<close>

lemma inherited_length:
  assumes "map_of (objectPrototype nativeText) kc = Some v" and "kc \<noteq> js ''__proto__''"
  shows "isNumber (lengthOf v)"
  using assms by (auto simp: objectPrototype_def lengthOf_def split: if_splits)

lemma mapPrintableCharacter_length:
  assumes "mapPrintableCharacter nativeText kc sh = Some v" and "kc \<noteq> js ''__proto__''"
  shows "isNumber (lengthOf v)"
  using mapPrintableCharacter_cases [OF assms(1)] inherited_length [OF _ assms(2)]
  by auto

lemma resolveText_length:
  assumes "resolveTextFromGlobalEvent nativeText ev = Some v"
  shows "isNumber (lengthOf v)"
  using resolveText_printable [OF assms] by auto

text \<open>
  From a state whose offsets are integers, a key event with a code other than
  \<open>__proto__\<close> leaves the content and the offsets as they were or leaves offsets in
  range.
\<close>

lemma inBounds_handler_case:
  assumes n: "numericSelection st" and k: "code ev \<noteq> js ''__proto__''"
  shows "(case handleFocuslessGlobalKey nativeText bridge ev st of
      Inl e \<Rightarrow> True
    | Inr (a, st') \<Rightarrow> editState st' = editState st \<or> selectionInBounds st')"
proof -
  obtain b st1 where c: "handleClipboardShortcut bridge ev st = (b, st1)"
    by (cases "handleClipboardShortcut bridge ev st")
  have r: "resolveTextFromGlobalEvent nativeText ev = Some v \<Longrightarrow>
      selectionInBounds (replaceSelectionWith v st)" for v
    using resolveText_length [of nativeText ev v] n by (simp add: inBounds_replaceSelectionWith)
  have m: "mapPrintableCharacter nativeText (code ev) (shift ev) = Some v \<Longrightarrow>
      selectionInBounds (replaceSelectionWith v st)" for v
    using mapPrintableCharacter_length [of nativeText "code ev" "shift ev" v] n k
    by (simp add: inBounds_replaceSelectionWith)
  show ?thesis
  proof (cases b)
    case True
    then show ?thesis
      using c inBounds_clipboard [OF n c]
      by (auto simp: handleFocuslessGlobalKey_def)
  next
    case False
    then show ?thesis
      using c n
      by (simp add: handleFocuslessGlobalKey_def inBounds_insertSuggestion
          inBounds_moveCaret inBounds_moveCaretToBoundary r m
          inBounds_deleteBackward_edit inBounds_deleteForward_edit
          split: option.split)
  qed
qed

lemma edges_inBounds:
  assumes "selectionStart st = Num s" and "selectionEnd st = Num e"
  shows "lowerEdge st = min s e" and "upperEdge st = max s e"
  using assms by (simp_all add: lowerEdge_def upperEdge_def)

lemma replaceSelectionWith_inBounds:
  assumes "selectionInBounds st"
  shows "replaceSelectionWith (JsString ins) st =
     st\<lparr>valueStr := take (nat (lowerEdge st)) (valueStr st) @ ins
                      @ drop (nat (upperEdge st)) (valueStr st),
        selectionStart := Num (lowerEdge st + strlen ins),
        selectionEnd := Num (lowerEdge st + strlen ins)\<rparr>"
proof -
  from assms obtain s e where n: "selectionStart st = Num s" "selectionEnd st = Num e"
    and r: "0 \<le> s" "s \<le> strlen (valueStr st)" "0 \<le> e" "e \<le> strlen (valueStr st)"
    by (rule inBoundsE)
  let ?lo = "min s e"
  let ?hi = "max s e"
  note ed = edges_inBounds [OF n]
  from r have b: "0 \<le> ?lo" "?lo \<le> ?hi" "?hi \<le> strlen (valueStr st)" "0 \<le> ?hi"
    by auto
  have c: "clamp (Num (?lo + strlen ins)) 0
      (strlen (take (nat ?lo) (valueStr st) @ ins @ drop (nat ?hi) (valueStr st)))
      = Num (?lo + strlen ins)"
    using b by (intro clamp_id) (auto simp: strlen_def)
  show ?thesis
    using b c
    by (simp add: replaceSelectionWith_def toNormalizedRange_def Let_def n ed
        applyValueAndSelection_def slice_0_take slice_from_drop stringOf_def lengthOf_def)
qed

lemma deleteBackward_collapsed:
  assumes "selectionInBounds st" and "selectionStart st = Num p" and "selectionEnd st = Num p"
    and "0 < p"
  shows "deleteBackward st =
     st\<lparr>valueStr := take (nat (p - 1)) (valueStr st) @ drop (nat p) (valueStr st),
        selectionStart := Num (p - 1),
        selectionEnd := Num (p - 1)\<rparr>"
proof -
  from assms have b: "p \<le> strlen (valueStr st)"
    by (auto simp: selectionInBounds_def)
  have c: "clamp (Num (p - 1)) 0
      (strlen (take (nat (p - 1)) (valueStr st) @ drop (nat p) (valueStr st))) = Num (p - 1)"
    using b assms(4) by (intro clamp_id) (auto simp: strlen_def)
  show ?thesis
    using assms b c
    by (simp add: deleteBackward_def toNormalizedRange_def Let_def
        applyValueAndSelection_def slice_0_take slice_from_drop)
qed

section \<open>Facts about the clipboard shortcuts\<close>

lemma clipboard_consumes:
  assumes "phase ev = Down" and "ctrl ev \<or> meta ev" and "\<not> alt ev"
    and "code ev \<in> {js ''KeyA'', js ''KeyC'', js ''KeyX'', js ''KeyV''}"
  shows "fst (handleClipboardShortcut bridge ev st)"
  using assms
  by (auto simp: handleClipboardShortcut_def Let_def split: prod.splits)

lemma clipboard_state:
  assumes "phase ev = Down" and "ctrl ev \<or> meta ev" and "\<not> alt ev"
  shows "(code ev = js ''KeyA'' \<longrightarrow>
            snd (handleClipboardShortcut bridge ev st)
              = updateSelection (Num 0) (Num (strlen (valueStr st))) st) \<and>
         (code ev = js ''KeyC'' \<longrightarrow> snd (handleClipboardShortcut bridge ev st) = st) \<and>
         (code ev = js ''KeyX'' \<longrightarrow>
            snd (handleClipboardShortcut bridge ev st)
              = (if selectedText st = [] then st else replaceSelectionWith (JsString []) st)) \<and>
         (code ev = js ''KeyV'' \<longrightarrow>
            snd (handleClipboardShortcut bridge ev st)
              = (case read_clipboard_text bridge of
                   None \<Rightarrow> st
                 | Some t \<Rightarrow> if t = [] then st else replaceSelectionWith (JsString t) st))"
  using assms
  by (auto simp: handleClipboardShortcut_def selectedText_def Let_def
      split: prod.splits option.splits)

lemma handler_clipboard:
  assumes "phase ev = Down" and "fst (handleClipboardShortcut bridge ev st)"
  shows "handleFocuslessGlobalKey nativeText bridge ev st
           = Inr (Action_none, snd (handleClipboardShortcut bridge ev st))"
  using assms
  by (cases "handleClipboardShortcut bridge ev st")
     (auto simp: handleFocuslessGlobalKey_def)

section \<open>Facts about the suggestion session\<close>

lemma session_updateSelection [simp]: "sessionState (updateSelection s e st) = sessionState st"
  by (simp add: sessionState_def updateSelection_def)

lemma session_applyValueAndSelection [simp]:
  "sessionState (applyValueAndSelection v s e st) = sessionState st"
  by (simp add: sessionState_def applyValueAndSelection_def)

lemma session_replaceSelectionWith [simp]:
  "sessionState (replaceSelectionWith ins st) = sessionState st"
  by (simp add: replaceSelectionWith_def Let_def split: prod.split)

lemma session_moveCaret [simp]: "sessionState (moveCaret d ext st) = sessionState st"
  by (simp add: moveCaret_def Let_def split: prod.split)

lemma session_moveCaretToBoundary [simp]:
  "sessionState (moveCaretToBoundary toEnd ext st) = sessionState st"
  by (simp add: moveCaretToBoundary_def Let_def)

lemma session_deleteBackward [simp]: "sessionState (deleteBackward st) = sessionState st"
  by (simp add: deleteBackward_def Let_def split: prod.split)

lemma session_deleteForward [simp]: "sessionState (deleteForward st) = sessionState st"
  by (simp add: deleteForward_def Let_def split: prod.split)

lemma session_clampEffect [simp]: "sessionState (clampEffect st) = sessionState st"
  by (simp add: clampEffect_def Let_def sessionState_def)

lemma session_clipboard [simp]:
  "sessionState (snd (handleClipboardShortcut bridge ev st)) = sessionState st"
  by (simp add: handleClipboardShortcut_def Let_def split: prod.split)

lemma inRange_insertSuggestion: "activeIndexInRange (insertSuggestion sg st)"
  by (simp add: insertSuggestion_def Let_def activeIndexInRange_def split: prod.split)

lemma js_rem_nonneg: "0 \<le> a \<Longrightarrow> 0 < n \<Longrightarrow> js_rem a n = a mod n"
  by (cases "a = 0") (simp_all add: js_rem_def)

lemma inRange_next:
  assumes "activeIndexInRange st" "showSuggestions st" "length (suggestions st) > 0"
  shows "js_rem (activeIndex st + 1) (int (length (suggestions st)))
           = (activeIndex st + 1) mod int (length (suggestions st))"
    and "activeIndexInRange
           (st\<lparr>activeIndex := js_rem (activeIndex st + 1) (int (length (suggestions st)))\<rparr>)"
proof -
  from assms have b: "0 \<le> activeIndex st" by (simp add: activeIndexInRange_def)
  show e: "js_rem (activeIndex st + 1) (int (length (suggestions st)))
           = (activeIndex st + 1) mod int (length (suggestions st))"
    using b assms(3) by (intro js_rem_nonneg) simp_all
  show "activeIndexInRange
           (st\<lparr>activeIndex := js_rem (activeIndex st + 1) (int (length (suggestions st)))\<rparr>)"
    using assms(3) unfolding e by (simp add: activeIndexInRange_def)
qed

lemma inRange_previous:
  assumes "activeIndexInRange st" "showSuggestions st" "length (suggestions st) > 0"
  shows "(if activeIndex st = 0 then int (length (suggestions st)) - 1 else activeIndex st - 1)
           = (activeIndex st - 1) mod int (length (suggestions st))"
    and "activeIndexInRange
           (st\<lparr>activeIndex := (if activeIndex st = 0 then int (length (suggestions st)) - 1
                               else activeIndex st - 1)\<rparr>)"
proof -
  from assms have b: "0 \<le> activeIndex st" "activeIndex st < int (length (suggestions st))"
    by (simp_all add: activeIndexInRange_def)
  show "(if activeIndex st = 0 then int (length (suggestions st)) - 1 else activeIndex st - 1)
           = (activeIndex st - 1) mod int (length (suggestions st))"
  proof (cases "activeIndex st = 0")
    case True
    have "(- 1) mod int (length (suggestions st)) = int (length (suggestions st)) - 1"
      using assms(3) by (simp add: zmod_minus1)
    then show ?thesis using True by simp
  next
    case False
    then show ?thesis using b by simp
  qed
  show "activeIndexInRange
           (st\<lparr>activeIndex := (if activeIndex st = 0 then int (length (suggestions st)) - 1
                               else activeIndex st - 1)\<rparr>)"
    using b assms(2,3) by (auto simp: activeIndexInRange_def)
qed

lemma inRange_recompute:
  "activeIndex (recomputeSuggestions lower findEmoji props st) = 0 \<and>
   activeIndexInRange (recomputeSuggestions lower findEmoji props st)"
  by (simp add: recomputeSuggestions_def Let_def activeIndexInRange_def split: prod.split)

lemma activeIndexInRange_cong:
  "suggestions st' = suggestions st \<Longrightarrow> showSuggestions st' = showSuggestions st \<Longrightarrow>
   activeIndex st' = activeIndex st \<Longrightarrow> activeIndexInRange st' = activeIndexInRange st"
  by (simp add: activeIndexInRange_def)

lemma inRange_next_simp:
  "activeIndexInRange st \<Longrightarrow> showSuggestions st \<Longrightarrow> suggestions st \<noteq> [] \<Longrightarrow>
   activeIndexInRange
     (st\<lparr>activeIndex := js_rem (activeIndex st + 1) (int (length (suggestions st)))\<rparr>)"
  using inRange_next(2) [of st] by simp

lemma inRange_previous_simp:
  "activeIndexInRange st \<Longrightarrow> showSuggestions st \<Longrightarrow> suggestions st \<noteq> [] \<Longrightarrow>
   activeIndexInRange (st\<lparr>activeIndex := int (length (suggestions st)) - 1\<rparr>) \<and>
   activeIndexInRange (st\<lparr>activeIndex := activeIndex st - 1\<rparr>) = (activeIndex st \<noteq> 0)"
  by (auto simp: activeIndexInRange_def)

lemma inRange_transfer:
  "activeIndexInRange st \<Longrightarrow> sessionState st' = sessionState st \<Longrightarrow> activeIndexInRange st'"
  by (simp add: sessionState_def activeIndexInRange_def)

lemma inRange_handler_case:
  assumes "activeIndexInRange st"
  shows "(case handleFocuslessGlobalKey nativeText bridge ev st of
      Inl e \<Rightarrow> True
    | Inr (a, st') \<Rightarrow> activeIndexInRange st')"
proof -
  obtain b st1 where c: "handleClipboardShortcut bridge ev st = (b, st1)"
    by (cases "handleClipboardShortcut bridge ev st")
  have s1: "activeIndexInRange st1"
    using session_clipboard [of bridge ev st] c by (intro inRange_transfer [OF assms]) simp
  have k: "activeIndexInRange (replaceSelectionWith t st)"
    "activeIndexInRange (deleteBackward st)" "activeIndexInRange (deleteForward st)"
    "activeIndexInRange (moveCaret d ext st)"
    "activeIndexInRange (moveCaretToBoundary toEnd ext st)" for t d ext toEnd
    by (rule inRange_transfer [OF assms], simp)+
  show ?thesis
  proof (cases b)
    case True
    then show ?thesis using c s1 by (simp add: handleFocuslessGlobalKey_def assms)
  next
    case False
    then show ?thesis
      using c
      by (simp add: handleFocuslessGlobalKey_def k inRange_insertSuggestion assms
          inRange_next_simp inRange_previous_simp split: option.split)
  qed
qed

lemma no_text_for_arrows:
  assumes "code ev = js ''ArrowDown'' \<or> code ev = js ''ArrowUp''"
  shows "resolveTextFromGlobalEvent nativeText ev = None"
    and "mapPrintableCharacter nativeText (code ev) sh = None"
proof -
  show "resolveTextFromGlobalEvent nativeText ev = None"
    using assms by (auto simp: resolveTextFromGlobalEvent_def nonTextKeyCodes_def)
  have t: "getProperty nativeText shiftedSymbolMap (js ''ArrowDown'') = None"
    "getProperty nativeText shiftedSymbolMap (js ''ArrowUp'') = None"
    "getProperty nativeText unshiftedSymbolMap (js ''ArrowDown'') = None"
    "getProperty nativeText unshiftedSymbolMap (js ''ArrowUp'') = None"
    by (simp_all add: getProperty_def shiftedSymbolMap_def unshiftedSymbolMap_def
        objectPrototype_def)
  have "mapPrintableCharacter nativeText (js ''ArrowDown'') sh = None"
    "mapPrintableCharacter nativeText (js ''ArrowUp'') sh = None"
    by (simp_all add: mapPrintableCharacter_def test_prefix_class_def t truthy_def)
  then show "mapPrintableCharacter nativeText (code ev) sh = None"
    using assms by auto
qed

lemma handler_ArrowDown:
  assumes "phase ev = Down" and "\<not> ctrl ev \<and> \<not> meta ev \<and> \<not> alt ev"
    and "code ev = js ''ArrowDown''"
  shows "handleFocuslessGlobalKey nativeText bridge ev st =
     (if showSuggestions st \<and> suggestions st \<noteq> [] then
        Inr (Action_none,
             st\<lparr>activeIndex := js_rem (activeIndex st + 1) (int (length (suggestions st)))\<rparr>)
      else Inr (Action_none, st))"
proof -
  have c: "handleClipboardShortcut bridge ev st = (False, st)"
    using assms(2) by (simp add: no_clipboard_without_ctrl_meta)
  have n: "resolveTextFromGlobalEvent nativeText ev = None"
    "mapPrintableCharacter nativeText (js ''ArrowDown'') (shift ev) = None"
    using no_text_for_arrows [of ev nativeText] assms(3) by auto
  show ?thesis
    by (simp add: handleFocuslessGlobalKey_def assms c n)
qed

lemma handler_ArrowUp:
  assumes "phase ev = Down" and "\<not> ctrl ev \<and> \<not> meta ev \<and> \<not> alt ev"
    and "code ev = js ''ArrowUp''"
  shows "handleFocuslessGlobalKey nativeText bridge ev st =
     (if showSuggestions st \<and> suggestions st \<noteq> [] then
        Inr (Action_none,
             st\<lparr>activeIndex :=
                  (if activeIndex st = 0 then int (length (suggestions st)) - 1
                   else activeIndex st - 1)\<rparr>)
      else Inr (Action_none, st))"
proof -
  have c: "handleClipboardShortcut bridge ev st = (False, st)"
    using assms(2) by (simp add: no_clipboard_without_ctrl_meta)
  have n: "resolveTextFromGlobalEvent nativeText ev = None"
    "mapPrintableCharacter nativeText (js ''ArrowUp'') (shift ev) = None"
    using no_text_for_arrows [of ev nativeText] assms(3) by auto
  show ?thesis
    by (simp add: handleFocuslessGlobalKey_def assms c n)
qed

section \<open>Facts about suggestion insertion\<close>

lemma split_regex_nonempty: "split_regex sep s \<noteq> []"
  by (induction s) (auto split: list.splits)

lemma split_regex_no_sep: "\<forall>x\<in>set s. \<not> sep x \<Longrightarrow> split_regex sep s = [s]"
  by (induction s) auto

lemma length_split_regex: "length (split_regex sep s) = Suc (length (filter sep s))"
  by (induction s) (auto split: list.splits)

lemma last_split_regex:
  assumes "sep w" and "\<forall>x\<in>set b. \<not> sep x"
  shows "last (split_regex sep (a @ w # b)) = b"
proof (induction a)
  case Nil
  then show ?case using assms by (simp add: split_regex_no_sep)
next
  case (Cons c a)
  show ?case
  proof (cases "sep c")
    case True
    then show ?thesis using Cons split_regex_nonempty [of sep "a @ w # b"] by simp
  next
    case False
    obtain u us where s: "split_regex sep (a @ w # b) = u # us"
      using split_regex_nonempty [of sep "a @ w # b"] by (cases "split_regex sep (a @ w # b)") auto
    have "length (split_regex sep (a @ w # b)) \<ge> 2"
      using assms(1) by (simp add: length_split_regex)
    then have "us \<noteq> []" using s by auto
    then show ?thesis using Cons False s by simp
  qed
qed

lemma lastWordOf_last: "lastWordOf s = last (split_regex isWhiteSpace s)"
  using split_regex_nonempty [of isWhiteSpace s]
  by (cases "split_regex isWhiteSpace s") (simp_all add: lastWordOf_def)

lemma lastWordOf_takeWhile:
  "lastWordOf s = rev (takeWhile (\<lambda>x. \<not> isWhiteSpace x) (rev s))"
proof (cases "\<exists>x\<in>set s. isWhiteSpace x")
  case False
  then have a: "\<forall>x\<in>set s. \<not> isWhiteSpace x" by blast
  then have t: "takeWhile (\<lambda>x. \<not> isWhiteSpace x) (rev s) = rev s" by simp
  show ?thesis unfolding t lastWordOf_last split_regex_no_sep [OF a] by simp
next
  case True
  then obtain a w b where d: "s = a @ w # b" "isWhiteSpace w" "\<forall>x\<in>set b. \<not> isWhiteSpace x"
    using split_list_last_prop [of s isWhiteSpace] by blast
  have l: "last (split_regex isWhiteSpace s) = b"
    unfolding d(1) by (rule last_split_regex [OF d(2,3)])
  have t: "takeWhile (\<lambda>x. \<not> isWhiteSpace x) (rev s) = rev b"
    using d by (simp add: takeWhile_tail)
  show ?thesis unfolding t lastWordOf_last l by simp
qed

lemma lastIndexOf_succ:
  "lastIndexOf s c + 1 = strlen s - int (length (takeWhile (\<lambda>x. x \<noteq> c) (rev s)))"
proof (cases "c \<in> set s")
  case True
  then show ?thesis by (simp add: lastIndexOf_def)
next
  case False
  then have t: "takeWhile (\<lambda>x. x \<noteq> c) (rev s) = rev s" by auto
  show ?thesis unfolding t using False by (simp add: lastIndexOf_def strlen_def)
qed

lemma length_takeWhile_conj:
  "length (takeWhile (\<lambda>x. P x \<and> Q x) xs)
     = min (length (takeWhile P xs)) (length (takeWhile Q xs))"
  by (induction xs) auto

lemma wordStart_takeWhile:
  "max (max (lastIndexOf b 0x20) (lastIndexOf b 0x09)) (lastIndexOf b 0x0A) + 1
     = strlen b - int (length (takeWhile (\<lambda>x. x \<noteq> 0x20 \<and> x \<noteq> 0x09 \<and> x \<noteq> 0x0A) (rev b)))"
proof -
  have "max (max (lastIndexOf b 0x20) (lastIndexOf b 0x09)) (lastIndexOf b 0x0A) + 1
      = max (max (lastIndexOf b 0x20 + 1) (lastIndexOf b 0x09 + 1)) (lastIndexOf b 0x0A + 1)"
    by simp
  also have "\<dots> = strlen b - int (min (min (length (takeWhile (\<lambda>x. x \<noteq> 0x20) (rev b)))
                                         (length (takeWhile (\<lambda>x. x \<noteq> 0x09) (rev b))))
                                    (length (takeWhile (\<lambda>x. x \<noteq> 0x0A) (rev b))))"
    unfolding lastIndexOf_succ by simp
  also have "\<dots> = strlen b - int (length (takeWhile
        (\<lambda>x. x \<noteq> 0x20 \<and> x \<noteq> 0x09 \<and> x \<noteq> 0x0A) (rev b)))"
    using length_takeWhile_conj [of "\<lambda>x. x \<noteq> 0x20 \<and> x \<noteq> 0x09" "\<lambda>x. x \<noteq> 0x0A" "rev b"]
      length_takeWhile_conj [of "\<lambda>x. x \<noteq> 0x20" "\<lambda>x. x \<noteq> 0x09" "rev b"]
    by simp
  finally show ?thesis .
qed

lemma takeWhile_until_last:
  assumes "\<And>x. B x \<Longrightarrow> A x"
    and "case dropWhile B xs of [] \<Rightarrow> True | w # ws \<Rightarrow> \<not> A w"
  shows "takeWhile A xs = takeWhile B xs"
  using assms(2) by (induction xs) (auto simp: assms(1) split: if_splits)

lemma wordStart_lastWord:
  assumes "lastWhitespaceIsPlain b"
  shows "max (max (lastIndexOf b 0x20) (lastIndexOf b 0x09)) (lastIndexOf b 0x0A) + 1
           = strlen b - strlen (lastWordOf b)"
proof -
  have w: "isWhiteSpace 0x20" "isWhiteSpace 0x09" "isWhiteSpace 0x0A"
    by (simp_all add: isWhiteSpace_def)
  have a: "\<not> isWhiteSpace x \<Longrightarrow> x \<noteq> 0x20 \<and> x \<noteq> 0x09 \<and> x \<noteq> 0x0A" for x
    using w by auto
  have d: "case dropWhile (\<lambda>x. \<not> isWhiteSpace x) (rev b) of
             [] \<Rightarrow> True
           | w # ws \<Rightarrow> \<not> (w \<noteq> 0x20 \<and> w \<noteq> 0x09 \<and> w \<noteq> 0x0A)"
  proof (cases "dropWhile (\<lambda>x. \<not> isWhiteSpace x) (rev b)")
    case Nil
    show ?thesis unfolding Nil by simp
  next
    case (Cons w ws)
    from assms have "w = 0x20 \<or> w = 0x09 \<or> w = 0x0A"
      unfolding lastWhitespaceIsPlain_def Cons by simp
    then show ?thesis unfolding Cons by auto
  qed
  have "takeWhile (\<lambda>x. x \<noteq> 0x20 \<and> x \<noteq> 0x09 \<and> x \<noteq> 0x0A) (rev b)
      = takeWhile (\<lambda>x. \<not> isWhiteSpace x) (rev b)"
    by (rule takeWhile_until_last [OF a d])
  then show ?thesis
    by (simp add: wordStart_takeWhile lastWordOf_takeWhile strlen_def)
qed

lemma strlen_lastWordOf_le: "strlen (lastWordOf b) \<le> strlen b"
  by (simp add: lastWordOf_takeWhile strlen_def)
     (metis length_rev length_takeWhile_le)

text \<open>
  What \<open>insertSuggestion\<close> does on a state with in-range offsets, whatever the text: the
  word it replaces starts after the last space, tab or newline before the lower edge.
\<close>

lemma insertSuggestion_code:
  assumes inb: "selectionInBounds st"
  shows "insertSuggestion sg st =
     st\<lparr>valueStr :=
          take (nat (plainWordStart (take (nat (lowerEdge st)) (valueStr st)))) (valueStr st)
          @ suggestionReplacement sg @ js '' ''
          @ drop (nat (upperEdge st)) (valueStr st),
        selectionStart :=
          Num (plainWordStart (take (nat (lowerEdge st)) (valueStr st))
               + strlen (suggestionReplacement sg @ js '' '')),
        selectionEnd :=
          Num (plainWordStart (take (nat (lowerEdge st)) (valueStr st))
               + strlen (suggestionReplacement sg @ js '' '')),
        showSuggestions := False\<rparr>"
proof -
  from inb obtain s e where n: "selectionStart st = Num s" "selectionEnd st = Num e"
    and r: "0 \<le> s" "s \<le> strlen (valueStr st)" "0 \<le> e" "e \<le> strlen (valueStr st)"
    by (rule inBoundsE)
  note ed = edges_inBounds [OF n]
  let ?V = "valueStr st"
  let ?lo = "lowerEdge st"
  let ?hi = "upperEdge st"
  let ?b = "take (nat ?lo) ?V"
  let ?ws = "plainWordStart ?b"
  let ?r = "suggestionReplacement sg"
  from r have b: "0 \<le> ?lo" "?lo \<le> strlen ?V" "0 \<le> ?hi"
    by (auto simp: ed)
  have lb: "strlen ?b = ?lo" using b by (simp add: strlen_def)
  have fold: "max (max (lastIndexOf ?b 0x20) (lastIndexOf ?b 0x09)) (lastIndexOf ?b 0x0A) + 1
      = ?ws"
    by (simp only: plainWordStart_def)
  have tl: "int (length (takeWhile (\<lambda>x. x \<noteq> 0x20 \<and> x \<noteq> 0x09 \<and> x \<noteq> 0x0A) (rev ?b)))
      \<le> ?lo"
  proof -
    have "length (takeWhile (\<lambda>x. x \<noteq> 0x20 \<and> x \<noteq> 0x09 \<and> x \<noteq> 0x0A) (rev ?b))
        \<le> length (rev ?b)"
      by (rule length_takeWhile_le)
    then have "int (length (takeWhile (\<lambda>x. x \<noteq> 0x20 \<and> x \<noteq> 0x09 \<and> x \<noteq> 0x0A) (rev ?b)))
        \<le> strlen ?b"
      by (simp only: strlen_def length_rev of_nat_le_iff)
    then show ?thesis unfolding lb .
  qed
  have wb: "0 \<le> ?ws" "?ws \<le> ?lo"
    using tl unfolding fold [symmetric] wordStart_takeWhile [of ?b] lb by linarith+
  have pre: "sliceStr ?b 0 ?ws = take (nat ?ws) ?V"
    using wb b by (simp add: slice_0_take min_def)
  have lp: "strlen (take (nat ?ws) ?V) = ?ws"
    using wb b by (simp add: strlen_def)
  have len: "strlen (take (nat ?ws) ?V @ ?r @ js '' '') = ?ws + strlen (?r @ js '' '')"
    using lp by (simp add: strlen_def)
  have cl: "clamp (Num (?ws + strlen (?r @ js '' ''))) 0
      (strlen ((take (nat ?ws) ?V @ ?r @ js '' '') @ drop (nat ?hi) ?V))
      = Num (?ws + strlen (?r @ js '' ''))"
    using wb len by (intro clamp_id) (simp_all add: strlen_def)
  have sl: "sliceStr ?V 0 (toInteger (math_min (selectionStart st) (selectionEnd st))) = ?b"
    "slice_from ?V (toInteger (math_max (selectionStart st) (selectionEnd st)))
       = drop (nat ?hi) ?V"
    using b by (simp_all add: slice_0_take slice_from_drop lowerEdge_def upperEdge_def)
  have u: "insertSuggestion sg st =
      (applyValueAndSelection ((sliceStr ?b 0 ?ws @ ?r @ js '' '') @ drop (nat ?hi) ?V)
         (Num (strlen (sliceStr ?b 0 ?ws @ ?r @ js '' '')))
         (Num (strlen (sliceStr ?b 0 ?ws @ ?r @ js '' ''))) st)\<lparr>showSuggestions := False\<rparr>"
    by (simp only: insertSuggestion_def toNormalizedRange_def Let_def split_conv sl fold)
  show ?thesis
    unfolding u pre len
    using cl by (simp add: applyValueAndSelection_def)
qed

lemma insertSuggestion_inBounds:
  assumes inb: "selectionInBounds st"
    and ws: "lastWhitespaceIsPlain (sliceStr (valueStr st) 0 (lowerEdge st))"
  shows "insertSuggestion sg st =
     st\<lparr>valueStr :=
          sliceStr (valueStr st) 0 (lowerEdge st - strlen (wordBeforeSelection st))
          @ suggestionReplacement sg @ js '' ''
          @ slice_from (valueStr st) (upperEdge st),
        selectionStart :=
          Num (lowerEdge st - strlen (wordBeforeSelection st)
               + strlen (suggestionReplacement sg @ js '' '')),
        selectionEnd :=
          Num (lowerEdge st - strlen (wordBeforeSelection st)
               + strlen (suggestionReplacement sg @ js '' '')),
        showSuggestions := False\<rparr>"
proof -
  from inb obtain s e where n: "selectionStart st = Num s" "selectionEnd st = Num e"
    and r: "0 \<le> s" "s \<le> strlen (valueStr st)" "0 \<le> e" "e \<le> strlen (valueStr st)"
    by (rule inBoundsE)
  note ed = edges_inBounds [OF n]
  let ?V = "valueStr st"
  let ?lo = "lowerEdge st"
  let ?hi = "upperEdge st"
  let ?b = "take (nat ?lo) ?V"
  let ?w = "wordBeforeSelection st"
  from r have b: "0 \<le> ?lo" "?lo \<le> strlen ?V" "0 \<le> ?hi"
    by (auto simp: ed)
  have bt: "sliceStr ?V 0 ?lo = ?b" using b by (simp add: slice_0_take)
  have lb: "strlen ?b = ?lo" using b by (simp add: strlen_def)
  have w: "?w = lastWordOf ?b" by (simp add: wordBeforeSelection_def bt)
  have start: "plainWordStart ?b = ?lo - strlen ?w"
    using wordStart_lastWord [of ?b] ws by (simp add: bt lb w plainWordStart_def)
  have le: "strlen ?w \<le> ?lo"
    using strlen_lastWordOf_le [of ?b] unfolding lb w .
  have wb: "0 \<le> ?lo - strlen ?w"
    using le by linarith
  show ?thesis
    unfolding insertSuggestion_code [OF inb] start
    using wb b by (simp add: slice_0_take slice_from_drop)
qed

lemma insertSuggestion_collapsed_spec:
  assumes inb: "selectionInBounds st"
    and ws: "lastWhitespaceIsPlain (sliceStr (valueStr st) 0 (lowerEdge st))"
    and col: "selectionStart st = selectionEnd st"
  shows "insertSuggestion sg st = spec_insertSuggestion sg st"
proof -
  from inb obtain s e where n: "selectionStart st = Num s" "selectionEnd st = Num e"
    by (rule inBoundsE)
  from col n have e: "e = s" by simp
  show ?thesis
    unfolding insertSuggestion_inBounds [OF inb ws]
    by (simp add: spec_insertSuggestion_def spec_caret_def wordBeforeSelection_def Let_def
        lowerEdge_def upperEdge_def n e)
qed

text \<open>
  When the last whitespace before the lower edge is not a space, a tab or a newline,
  \<open>insertSuggestion\<close> starts the word too early: with a collapsed selection in range it
  agrees with the insertion of the specification exactly when that whitespace, if there
  is any, is one of the three.
\<close>

lemma takeWhile_past_last:
  assumes "\<And>x. B x \<Longrightarrow> A x"
    and "case dropWhile B xs of [] \<Rightarrow> False | w # ws \<Rightarrow> A w"
  shows "length (takeWhile B xs) < length (takeWhile A xs)"
  using assms(2) by (induction xs) (auto simp: assms(1) split: if_splits)

lemma plainWordStart_early:
  assumes "\<not> lastWhitespaceIsPlain b"
  shows "plainWordStart b < strlen b - strlen (lastWordOf b)"
proof -
  have w: "isWhiteSpace 0x20" "isWhiteSpace 0x09" "isWhiteSpace 0x0A"
    by (simp_all add: isWhiteSpace_def)
  have a: "\<not> isWhiteSpace x \<Longrightarrow> x \<noteq> 0x20 \<and> x \<noteq> 0x09 \<and> x \<noteq> 0x0A" for x
    using w by auto
  have d: "case dropWhile (\<lambda>x. \<not> isWhiteSpace x) (rev b) of
             [] \<Rightarrow> False
           | w # ws \<Rightarrow> w \<noteq> 0x20 \<and> w \<noteq> 0x09 \<and> w \<noteq> 0x0A"
  proof (cases "dropWhile (\<lambda>x. \<not> isWhiteSpace x) (rev b)")
    case Nil
    with assms show ?thesis unfolding lastWhitespaceIsPlain_def by simp
  next
    case (Cons w ws)
    from assms have "\<not> (w = 0x20 \<or> w = 0x09 \<or> w = 0x0A)"
      unfolding lastWhitespaceIsPlain_def Cons by simp
    then show ?thesis unfolding Cons by simp
  qed
  have "length (takeWhile (\<lambda>x. \<not> isWhiteSpace x) (rev b))
      < length (takeWhile (\<lambda>x. x \<noteq> 0x20 \<and> x \<noteq> 0x09 \<and> x \<noteq> 0x0A) (rev b))"
    by (rule takeWhile_past_last [OF a d])
  then show ?thesis
    by (simp add: plainWordStart_def wordStart_takeWhile lastWordOf_takeWhile strlen_def)
qed

lemma insertSuggestion_collapsed_spec_iff:
  assumes inb: "selectionInBounds st" and col: "selectionStart st = selectionEnd st"
  shows "(insertSuggestion sg st = spec_insertSuggestion sg st)
           = lastWhitespaceIsPlain (sliceStr (valueStr st) 0 (lowerEdge st))"
proof
  assume "lastWhitespaceIsPlain (sliceStr (valueStr st) 0 (lowerEdge st))"
  then show "insertSuggestion sg st = spec_insertSuggestion sg st"
    by (rule insertSuggestion_collapsed_spec [OF inb _ col])
next
  assume eq: "insertSuggestion sg st = spec_insertSuggestion sg st"
  show "lastWhitespaceIsPlain (sliceStr (valueStr st) 0 (lowerEdge st))"
  proof (rule ccontr)
    assume np: "\<not> lastWhitespaceIsPlain (sliceStr (valueStr st) 0 (lowerEdge st))"
    from inb col obtain p where n: "selectionStart st = Num p" "selectionEnd st = Num p"
      and b: "0 \<le> p" "p \<le> strlen (valueStr st)"
      by (elim inBoundsE) simp
    have ed: "lowerEdge st = p" using edges_inBounds [OF n] by simp
    let ?b = "take (nat p) (valueStr st)"
    have bt: "sliceStr (valueStr st) 0 p = ?b" using b by (simp add: slice_0_take)
    have lb: "strlen ?b = p" using b by (simp add: strlen_def)
    have lt: "plainWordStart ?b < p - strlen (lastWordOf ?b)"
      using plainWordStart_early [of ?b] np by (simp add: ed bt lb)
    have c: "selectionStart (insertSuggestion sg st)
        = Num (plainWordStart ?b + strlen (suggestionReplacement sg @ js '' ''))"
      unfolding insertSuggestion_code [OF inb] by (simp add: ed)
    have s: "selectionStart (spec_insertSuggestion sg st)
        = Num (p - strlen (lastWordOf ?b) + strlen (suggestionReplacement sg @ js '' ''))"
      by (simp add: spec_insertSuggestion_def spec_caret_def Let_def n bt)
    from eq c s lt show False by simp
  qed
qed

lemma lastWordOf_hello: "lastWordOf (js ''hello @al'') = js ''@al''"
  by (simp add: lastWordOf_takeWhile js_Cons isWhiteSpace_def)

lemma plain_whitespace_hello: "lastWhitespaceIsPlain (js ''hello @al'')"
  by (simp add: lastWhitespaceIsPlain_def js_Cons isWhiteSpace_def)

lemma insert_alice_hello:
  assumes "valueStr st = js ''hello @al''" and "selectionStart st = Num 9"
    and "selectionEnd st = Num 9"
  shows "insertSuggestion (Mention (js ''alice'')) st
     = st\<lparr>valueStr := js ''hello @alice '', selectionStart := Num 13,
          selectionEnd := Num 13, showSuggestions := False\<rparr>"
proof -
  have i: "selectionInBounds st"
    using assms by (simp add: selectionInBounds_def)
  have ed: "lowerEdge st = 9" "upperEdge st = 9"
    using edges_inBounds [OF assms(2,3)] by simp_all
  have b: "sliceStr (valueStr st) 0 (lowerEdge st) = js ''hello @al''"
    using assms by (simp add: slice_0_take ed)
  have w: "wordBeforeSelection st = js ''@al''"
    using b lastWordOf_hello by (simp add: wordBeforeSelection_def)
  have h: "lastWhitespaceIsPlain (sliceStr (valueStr st) 0 (lowerEdge st))"
    unfolding b by (rule plain_whitespace_hello)
  have v: "sliceStr (valueStr st) 0 (9 - 3) @ suggestionReplacement (Mention (js ''alice''))
      @ js '' '' @ slice_from (valueStr st) 9 = js ''hello @alice ''"
    using assms(1) by (simp add: slice_0_take slice_from_drop suggestionReplacement_def js_Cons)
  have l: "strlen (suggestionReplacement (Mention (js ''alice'')) @ js '' '') = 7"
    by (simp add: suggestionReplacement_def strlen_def)
  show ?thesis
    unfolding insertSuggestion_inBounds [OF i h]
    using v by (simp add: ed w l)
qed

lemma usernames_aliceProps: "usernames aliceProps = [js ''alice'', js ''albert'', js ''bob'']"
  by (simp add: usernames_def aliceProps_def)

lemma lower_names:
  "toLowerCaseAscii (js ''al'') = js ''al''"
  "toLowerCaseAscii (js ''alice'') = js ''alice''"
  "toLowerCaseAscii (js ''albert'') = js ''albert''"
  "toLowerCaseAscii (js ''bob'') = js ''bob''"
  by (simp_all add: toLowerCaseAscii_def isUpperAZ_def js_Cons)

lemma recompute_mention:
  assumes "lastWordOf (sliceStr (valueStr st) 0
             (toInteger (if \<not> num_eq (selectionStart st) (selectionEnd st)
                         then math_max (selectionStart st) (selectionEnd st)
                         else selectionEnd st))) = js ''@al''"
  shows "recomputeSuggestions toLowerCaseAscii noEmoji aliceProps st
     = st\<lparr>suggestions := [Mention (js ''alice''), Mention (js ''albert'')],
          showSuggestions := True, activeIndex := 0\<rparr>"
proof -
  have q: "slice_from (js ''@al'') 1 = js ''al''"
    by (simp add: slice_from_drop)
  have f: "filter (\<lambda>u. startsWith (toLowerCaseAscii u) (js ''al''))
             [js ''alice'', js ''albert'', js ''bob''] = [js ''alice'', js ''albert'']"
    by (simp add: lower_names)
  show ?thesis
    using assms
    by (simp add: recomputeSuggestions_def Let_def q f lower_names usernames_aliceProps)
qed

lemma lastWordOf_x: "lastWordOf (js ''x @al'') = js ''@al''" "lastWordOf [] = []"
  by (simp_all add: lastWordOf_takeWhile js_Cons isWhiteSpace_def)

lemma insert_alice_selected:
  "insertSuggestion (Mention (js ''alice'')) selectedSession
      = selectedSession\<lparr>valueStr := js ''@alice '', selectionStart := Num 7,
          selectionEnd := Num 7, showSuggestions := False\<rparr>"
proof -
  let ?st = selectedSession
  have f: "valueStr ?st = js ''x @al''" "selectionStart ?st = Num 0" "selectionEnd ?st = Num 5"
    by (simp_all add: selectedSession_def)
  have i: "selectionInBounds ?st"
    by (simp add: selectionInBounds_def f)
  have ed: "lowerEdge ?st = 0" "upperEdge ?st = 5"
    using edges_inBounds [OF f(2,3)] by simp_all
  have b: "take (nat (lowerEdge ?st)) (valueStr ?st) = []"
    by (simp add: ed)
  have x: "plainWordStart [] = 0"
    by (simp add: plainWordStart_def lastIndexOf_def)
  have v: "suggestionReplacement (Mention (js ''alice'')) @ js '' ''
      @ drop 5 (valueStr ?st) = js ''@alice ''"
    by (simp add: f suggestionReplacement_def js_Cons)
  have l: "strlen (suggestionReplacement (Mention (js ''alice'')) @ js '' '') = 7"
    by (simp add: suggestionReplacement_def strlen_def)
  show ?thesis
    unfolding insertSuggestion_code [OF i] b x
    using v by (simp add: ed l)
qed

lemma spec_insert_alice_selected:
  "spec_insertSuggestion (Mention (js ''alice'')) selectedSession
      = selectedSession\<lparr>valueStr := js ''x @alice '', selectionStart := Num 9,
          selectionEnd := Num 9, showSuggestions := False\<rparr>"
proof -
  let ?st = selectedSession
  have f: "valueStr ?st = js ''x @al''" "selectionStart ?st = Num 0" "selectionEnd ?st = Num 5"
    by (simp_all add: selectedSession_def)
  have c: "spec_caret ?st = 5" by (simp add: spec_caret_def f)
  have w: "lastWordOf (sliceStr (valueStr ?st) 0 5) = js ''@al''"
    using lastWordOf_x(1) by (simp add: f slice_0_take)
  have v: "sliceStr (valueStr ?st) 0 (5 - 3) @ (suggestionReplacement (Mention (js ''alice''))
      @ js '' '') @ slice_from (valueStr ?st) 5 = js ''x @alice ''"
    by (simp add: f slice_0_take slice_from_drop suggestionReplacement_def js_Cons)
  have l: "strlen (suggestionReplacement (Mention (js ''alice'')) @ js '' '') = 7"
    by (simp add: suggestionReplacement_def strlen_def)
  show ?thesis
    using v by (simp add: spec_insertSuggestion_def Let_def c w l)
qed

text \<open>
  The ideographic space U+3000 is whitespace for \<open>/\\s/\<close> and is none of the three
  characters \<open>insertSuggestion\<close> looks for.
\<close>

lemma wide_value: "valueStr wideSpaceSession = 0x61 # 0x3000 # js ''@al''"
  by (simp add: wideSpaceSession_def)

lemma lastWordOf_wide: "lastWordOf (0x61 # 0x3000 # js ''@al'') = js ''@al''"
  by (simp add: lastWordOf_takeWhile js_Cons isWhiteSpace_def)

lemma insert_alice_wide:
  "insertSuggestion (Mention (js ''alice'')) wideSpaceSession
      = wideSpaceSession\<lparr>valueStr := js ''@alice '', selectionStart := Num 7,
          selectionEnd := Num 7, showSuggestions := False\<rparr>"
proof -
  let ?st = wideSpaceSession
  have f: "valueStr ?st = 0x61 # 0x3000 # js ''@al''" "selectionStart ?st = Num 5"
    "selectionEnd ?st = Num 5"
    by (simp_all add: wideSpaceSession_def)
  have i: "selectionInBounds ?st"
    by (simp add: selectionInBounds_def f strlen_def)
  have ed: "lowerEdge ?st = 5" "upperEdge ?st = 5"
    using edges_inBounds [OF f(2,3)] by simp_all
  have b: "take (nat (lowerEdge ?st)) (valueStr ?st) = 0x61 # 0x3000 # js ''@al''"
    by (simp add: ed f)
  have x: "plainWordStart (0x61 # 0x3000 # js ''@al'') = 0"
    by (simp add: plainWordStart_def lastIndexOf_def js_Cons)
  have v: "suggestionReplacement (Mention (js ''alice'')) @ js '' ''
      @ drop 5 (valueStr ?st) = js ''@alice ''"
    by (simp add: f suggestionReplacement_def js_Cons)
  have l: "strlen (suggestionReplacement (Mention (js ''alice'')) @ js '' '') = 7"
    by (simp add: suggestionReplacement_def strlen_def)
  show ?thesis
    unfolding insertSuggestion_code [OF i] b x
    using v by (simp add: ed l)
qed

lemma spec_insert_alice_wide:
  "spec_insertSuggestion (Mention (js ''alice'')) wideSpaceSession
      = wideSpaceSession\<lparr>valueStr := 0x61 # 0x3000 # js ''@alice '', selectionStart := Num 9,
          selectionEnd := Num 9, showSuggestions := False\<rparr>"
proof -
  let ?st = wideSpaceSession
  have f: "valueStr ?st = 0x61 # 0x3000 # js ''@al''" "selectionStart ?st = Num 5"
    "selectionEnd ?st = Num 5"
    by (simp_all add: wideSpaceSession_def)
  have c: "spec_caret ?st = 5" by (simp add: spec_caret_def f)
  have w: "lastWordOf (sliceStr (valueStr ?st) 0 5) = js ''@al''"
    using lastWordOf_wide by (simp add: f slice_0_take)
  have v: "sliceStr (valueStr ?st) 0 (5 - 3) @ (suggestionReplacement (Mention (js ''alice''))
      @ js '' '') @ slice_from (valueStr ?st) 5 = 0x61 # 0x3000 # js ''@alice ''"
    by (simp add: f slice_0_take slice_from_drop suggestionReplacement_def js_Cons)
  have l: "strlen (suggestionReplacement (Mention (js ''alice'')) @ js '' '') = 7"
    by (simp add: suggestionReplacement_def strlen_def)
  show ?thesis
    using v by (simp add: spec_insertSuggestion_def Let_def c w l)
qed

section \<open>Facts about pasting\<close>

lemma handler_paste:
  assumes "read_clipboard_text bridge = Some t" and "t \<noteq> []"
  shows "handleFocuslessGlobalKey nativeText bridge (ctrlDown ''KeyV'') st
           = Inr (Action_none, replaceSelectionWith (JsString t) st)"
proof -
  have p: "phase (ctrlDown ''KeyV'') = Down" "ctrl (ctrlDown ''KeyV'') \<or> meta (ctrlDown ''KeyV'')"
    "\<not> alt (ctrlDown ''KeyV'')" "code (ctrlDown ''KeyV'') = js ''KeyV''"
    by (simp_all add: ctrlDown_def keyDown_def)
  have k: "code (ctrlDown ''KeyV'') \<in> {js ''KeyA'', js ''KeyC'', js ''KeyX'', js ''KeyV''}"
    by (simp add: p(4))
  have "snd (handleClipboardShortcut bridge (ctrlDown ''KeyV'') st)
      = replaceSelectionWith (JsString t) st"
    using clipboard_state [OF p(1-3), of bridge st] assms by (simp add: p(4))
  then show ?thesis
    using handler_clipboard [OF p(1) clipboard_consumes [OF p(1-3) k],
        where bridge = bridge and st = st and nativeText = nativeText]
    by simp
qed

section \<open>Claims\<close>

subsection \<open>C1\<close>

text \<open>
  C1, as the code has it. Take a key event with no ctrl, meta or alt, a code outside
  \<open>nonTextKeyCodes\<close> and the function keys, and composed text \<open>t\<close> that is present,
  non-empty and free of control characters. If the code is neither a plain letter key
  nor one of \<open>forceCodeMappedCodes\<close> (digit row, US symbol keys, numeric-keypad
  operators), the resolved text is \<open>t\<close>. On a code of \<open>forceCodeMappedCodes\<close> the
  table resolver wins over \<open>t\<close>. On a plain letter key \<open>t\<close> wins unless it is a single
  ASCII letter, in which case the letter of the key wins, upper case exactly when shift
  differs from caps lock. On key down the interpreter inserts the resolved text, a
  string, through \<open>replaceSelectionWith\<close>.
\<close>

theorem composed_text_preference:
  assumes "\<not> ctrl ev \<and> \<not> meta ev \<and> \<not> alt ev"
    and "textOpt ev = Some t" and "t \<noteq> []" and "noControlCharacters t"
    and "code ev \<notin> set nonTextKeyCodes" and "\<not> test_function_key (code ev)"
  shows "(\<not> isLetterKey (code ev) \<and> code ev \<notin> set forceCodeMappedCodes \<longrightarrow>
            resolveTextFromGlobalEvent nativeText ev = Some (JsString t)) \<and>
         (code ev \<in> set forceCodeMappedCodes \<longrightarrow>
            resolveTextFromGlobalEvent nativeText ev
              = mapPrintableCharacter nativeText (code ev) (shift ev) \<and>
            (\<exists>m. mapPrintableCharacter nativeText (code ev) (shift ev) = Some (JsString m))) \<and>
         (isLetterKey (code ev) \<and> \<not> test_single isAsciiLetter t \<longrightarrow>
            resolveTextFromGlobalEvent nativeText ev = Some (JsString t)) \<and>
         (isLetterKey (code ev) \<and> test_single isAsciiLetter t \<longrightarrow>
            resolveTextFromGlobalEvent nativeText ev =
              Some (JsString (if shift ev \<noteq> (caps ev = Some True) then slice_from (code ev) 3
                              else toLowerCaseAscii (slice_from (code ev) 3)))) \<and>
         (phase ev = Down \<longrightarrow>
            (\<exists>ins. resolveTextFromGlobalEvent nativeText ev = Some (JsString ins) \<and>
               handleFocuslessGlobalKey nativeText bridge ev st
                 = Inr (Action_none, replaceSelectionWith (JsString ins) st)))"
proof -
  have n: "normalizedText ev = t" by (rule normalizedText_valid [OF assms(2,4)])
  have v: "hasValidRaw ev" by (rule hasValidRaw_valid [OF assms(2,3,4)])
  have f: "code ev \<in> set forceCodeMappedCodes \<Longrightarrow>
      (\<exists>m. mapPrintableCharacter nativeText (code ev) (shift ev) = Some (JsString m))
      \<and> \<not> isLetterKey (code ev)"
    by (rule forced_code_mapped)
  have a: "isAsciiLetter = (\<lambda>c. isLowerAZ c \<or> isUpperAZ c)"
    by (rule ext) (simp add: isAsciiLetter_def)
  have r: "resolveTextFromGlobalEvent nativeText ev =
      (if isLetterKey (code ev) then
         (if \<not> test_single isAsciiLetter t then Some (JsString t)
          else Some (JsString (if shift ev \<noteq> (caps ev = Some True) then slice_from (code ev) 3
                               else toLowerCaseAscii (slice_from (code ev) 3))))
       else if code ev \<in> set forceCodeMappedCodes
         then mapPrintableCharacter nativeText (code ev) (shift ev)
       else Some (JsString t))"
    using assms(1,5,6) n v f
    by (auto simp: resolveTextFromGlobalEvent_def Let_def isLetterKey_def a)
  have s: "\<exists>ins. resolveTextFromGlobalEvent nativeText ev = Some (JsString ins)"
    using r f by (auto split: if_splits)
  have h: "phase ev = Down \<longrightarrow>
            (\<exists>ins. resolveTextFromGlobalEvent nativeText ev = Some (JsString ins) \<and>
               handleFocuslessGlobalKey nativeText bridge ev st
                 = Inr (Action_none, replaceSelectionWith (JsString ins) st))"
  proof
    assume d: "phase ev = Down"
    from s obtain ins where i: "resolveTextFromGlobalEvent nativeText ev = Some (JsString ins)"
      by blast
    have "code ev \<notin> set structuralKeyCodes"
      using assms(5) structural_subset by blast
    then have "handleFocuslessGlobalKey nativeText bridge ev st
                 = Inr (Action_none, replaceSelectionWith (JsString ins) st)"
      using text_production_step [of ev nativeText bridge st] d assms(1) i by simp
    then show "\<exists>ins. resolveTextFromGlobalEvent nativeText ev = Some (JsString ins) \<and>
               handleFocuslessGlobalKey nativeText bridge ev st
                 = Inr (Action_none, replaceSelectionWith (JsString ins) st)"
      using i by blast
  qed
  show ?thesis
    using r f h by (intro conjI) auto
qed

theorem composed_text_preference_witness:
  "resolveTextFromGlobalEvent oneLineNativeText (keyDown ''Space'' False (Some [0x3000]))
     = Some (JsString [0x3000]) \<and>
   resolveTextFromGlobalEvent oneLineNativeText (keyDown ''Digit1'' True (Some (js ''1'')))
     = Some (JsString (js ''!'')) \<and>
   resolveTextFromGlobalEvent oneLineNativeText (keyDown ''KeyA'' False (Some [0x0444]))
     = Some (JsString [0x0444]) \<and>
   resolveTextFromGlobalEvent oneLineNativeText (keyDown ''KeyA'' False (Some (js ''A'')))
     = Some (JsString (js ''a'')) \<and>
   handleFocuslessGlobalKey oneLineNativeText failingBridge
     (keyDown ''KeyA'' False (Some [0x0444])) (textState [] 0 0)
     = Inr (Action_none, replaceSelectionWith (JsString [0x0444]) (textState [] 0 0))"
proof -
  let ?nt = oneLineNativeText
  have mods: "\<not> ctrl (keyDown kc sh tx) \<and> \<not> meta (keyDown kc sh tx) \<and> \<not> alt (keyDown kc sh tx)"
    and tx: "textOpt (keyDown kc sh tx) = tx" and cd: "code (keyDown kc sh tx) = js kc"
    and ph: "phase (keyDown kc sh tx) = Down" and sf: "shift (keyDown kc sh tx) = sh"
    and cp: "caps (keyDown kc sh tx) = None" for kc sh tx
    by (simp_all add: keyDown_def)
  have nc: "noControlCharacters [0x3000]" "noControlCharacters (js ''1'')"
    "noControlCharacters [0x0444]" "noControlCharacters (js ''A'')"
    by (simp_all add: noControlCharacters_def js_Cons)
  have nt: "js ''Space'' \<notin> set nonTextKeyCodes" "js ''Digit1'' \<notin> set nonTextKeyCodes"
    "js ''KeyA'' \<notin> set nonTextKeyCodes"
    by (simp_all add: nonTextKeyCodes_def)
  have fk: "\<not> test_function_key (js ''Space'')" "\<not> test_function_key (js ''Digit1'')"
    "\<not> test_function_key (js ''KeyA'')"
    by (simp_all add: test_function_key_def js_Cons)
  have lk: "\<not> isLetterKey (js ''Space'')" "isLetterKey (js ''KeyA'')"
    by (simp_all add: isLetterKey_def test_prefix_class_def nth_js isUpperAZ_def)
  have fc: "js ''Space'' \<notin> set forceCodeMappedCodes" "js ''Digit1'' \<in> set forceCodeMappedCodes"
    by (simp_all add: forceCodeMappedCodes_def shiftedNumberMap_def shiftedSymbolMap_def
        unshiftedSymbolMap_def)
  have ts: "\<not> test_single isAsciiLetter [0x0444]" "test_single isAsciiLetter (js ''A'')"
    by (simp_all add: test_single_def isAsciiLetter_def isLowerAZ_def isUpperAZ_def js_Cons)
  have mp: "mapPrintableCharacter ?nt (js ''Digit1'') True = Some (JsString (js ''!''))"
    by (simp add: mapPrintableCharacter_def test_prefix_class_def nth_js isDigit09_def
        shiftedNumberMap_def getProperty_def)
  have lw: "toLowerCaseAscii (slice_from (js ''KeyA'') 3) = js ''a''"
    by (simp add: slice_from_drop toLowerCaseAscii_def isUpperAZ_def js_Cons)
  have w1: "resolveTextFromGlobalEvent ?nt (keyDown ''Space'' False (Some [0x3000]))
      = Some (JsString [0x3000])"
    using composed_text_preference [where ev = "keyDown ''Space'' False (Some [0x3000])"
        and t = "[0x3000]" and nativeText = ?nt]
    by (simp add: mods tx cd nc nt fk lk fc)
  have w2: "resolveTextFromGlobalEvent ?nt (keyDown ''Digit1'' True (Some (js ''1'')))
      = Some (JsString (js ''!''))"
    using composed_text_preference [where ev = "keyDown ''Digit1'' True (Some (js ''1''))"
        and t = "js ''1''" and nativeText = ?nt]
    by (simp add: mods tx cd nc nt fk fc mp sf)
  have w3: "resolveTextFromGlobalEvent ?nt (keyDown ''KeyA'' False (Some [0x0444]))
      = Some (JsString [0x0444]) \<and>
     handleFocuslessGlobalKey ?nt failingBridge (keyDown ''KeyA'' False (Some [0x0444]))
       (textState [] 0 0)
       = Inr (Action_none, replaceSelectionWith (JsString [0x0444]) (textState [] 0 0))"
    using composed_text_preference [where ev = "keyDown ''KeyA'' False (Some [0x0444])"
        and t = "[0x0444]" and bridge = failingBridge and st = "textState [] 0 0"
        and nativeText = ?nt]
    by (auto simp: mods tx cd nc nt fk lk ts ph)
  have w4: "resolveTextFromGlobalEvent ?nt (keyDown ''KeyA'' False (Some (js ''A'')))
      = Some (JsString (js ''a''))"
    using composed_text_preference [where ev = "keyDown ''KeyA'' False (Some (js ''A''))"
        and t = "js ''A''" and nativeText = ?nt]
    by (simp add: mods tx cd nc nt fk lk ts sf cp lw)
  show ?thesis using w1 w2 w3 w4 by simp
qed

text \<open>
  C1 as stated fails on the digit row: \<open>Digit1\<close> without shift and with composed text
  \<open>&\<close> (a French layout) is no letter key and its composed text is valid, yet \<open>1\<close> is
  inserted. It also fails on a letter key whose composed text is ASCII but no letter:
  \<open>KeyA\<close> with composed text \<open>1\<close> resolves to \<open>1\<close>, not to the table's \<open>a\<close>.
\<close>

theorem forced_key_ignores_composed_text_counterexample:
  "phase (keyDown ''Digit1'' False (Some (js ''&''))) = Down \<and>
   \<not> ctrl (keyDown ''Digit1'' False (Some (js ''&''))) \<and>
   \<not> meta (keyDown ''Digit1'' False (Some (js ''&''))) \<and>
   \<not> alt (keyDown ''Digit1'' False (Some (js ''&''))) \<and>
   \<not> isLetterKey (code (keyDown ''Digit1'' False (Some (js ''&'')))) \<and>
   textOpt (keyDown ''Digit1'' False (Some (js ''&''))) = Some (js ''&'') \<and>
   js ''&'' \<noteq> [] \<and> \<not> hasControlCharacters (js ''&'') \<and>
   resolveTextFromGlobalEvent oneLineNativeText (keyDown ''Digit1'' False (Some (js ''&'')))
     = Some (JsString (js ''1'')) \<and>
   handleFocuslessGlobalKey oneLineNativeText failingBridge
     (keyDown ''Digit1'' False (Some (js ''&''))) (textState [] 0 0)
     = Inr (Action_none, textState ''1'' 1 1) \<and>
   isLetterKey (code (keyDown ''KeyA'' False (Some (js ''1'')))) \<and>
   resolveTextFromGlobalEvent oneLineNativeText (keyDown ''KeyA'' False (Some (js ''1'')))
     = Some (JsString (js ''1'')) \<and>
   mapPrintableCharacter oneLineNativeText (js ''KeyA'') False = Some (JsString (js ''a''))"
proof -
  let ?nt = oneLineNativeText
  have m: "mapPrintableCharacter ?nt (js ''Digit1'') False = Some (JsString (js ''1''))"
    "mapPrintableCharacter ?nt (js ''KeyA'') False = Some (JsString (js ''a''))"
    by (simp_all add: mapPrintableCharacter_def test_prefix_class_def nth_js isDigit09_def
        isUpperAZ_def slice_from_drop toLowerCaseAscii_def js_Cons)
  have k: "isLetterKey (js ''KeyA'')" "\<not> isLetterKey (js ''Digit1'')"
    by (simp_all add: isLetterKey_def test_prefix_class_def nth_js isUpperAZ_def)
  have f: "js ''Digit1'' \<in> set forceCodeMappedCodes"
    by (simp add: forceCodeMappedCodes_def shiftedNumberMap_def)
  have n: "js ''Digit1'' \<notin> set nonTextKeyCodes" "js ''KeyA'' \<notin> set nonTextKeyCodes"
    by (simp_all add: nonTextKeyCodes_def)
  have t: "\<not> test_function_key (js ''Digit1'')" "\<not> test_function_key (js ''KeyA'')"
    by (simp_all add: test_function_key_def js_Cons)
  have c: "\<not> hasControlCharacters (js ''&'')" "\<not> hasControlCharacters (js ''1'')"
    by (simp_all add: hasControlCharacters_iff noControlCharacters_def js_Cons)
  have v: "hasValidRaw (keyDown ''KeyA'' False (Some (js ''1'')))"
    "normalizedText (keyDown ''KeyA'' False (Some (js ''1''))) = js ''1''"
  proof -
    have nc: "noControlCharacters (js ''1'')"
      by (simp add: noControlCharacters_def js_Cons)
    have tx: "textOpt (keyDown ''KeyA'' False (Some (js ''1''))) = Some (js ''1'')"
      by (simp add: keyDown_def)
    show "hasValidRaw (keyDown ''KeyA'' False (Some (js ''1'')))"
      by (rule hasValidRaw_valid [OF tx _ nc]) simp
    show "normalizedText (keyDown ''KeyA'' False (Some (js ''1''))) = js ''1''"
      by (rule normalizedText_valid [OF tx nc])
  qed
  have r1: "resolveTextFromGlobalEvent ?nt (keyDown ''Digit1'' False (Some (js ''&'')))
      = Some (JsString (js ''1''))"
    using m k n t f
    by (simp add: resolveTextFromGlobalEvent_def keyDown_def isLetterKey_def)
  have r2: "resolveTextFromGlobalEvent ?nt (keyDown ''KeyA'' False (Some (js ''1'')))
      = Some (JsString (js ''1''))"
    using k n t v
    by (simp add: resolveTextFromGlobalEvent_def isLetterKey_def)
       (simp add: keyDown_def test_single_def js_Cons isLowerAZ_def isUpperAZ_def)
  have p: "phase (keyDown ''Digit1'' False (Some (js ''&''))) = Down \<and>
      \<not> ctrl (keyDown ''Digit1'' False (Some (js ''&''))) \<and>
      \<not> meta (keyDown ''Digit1'' False (Some (js ''&''))) \<and>
      \<not> alt (keyDown ''Digit1'' False (Some (js ''&''))) \<and>
      code (keyDown ''Digit1'' False (Some (js ''&''))) \<notin> set structuralKeyCodes"
    by (simp add: keyDown_def structuralKeyCodes_def)
  have i: "replaceSelectionWith (JsString (js ''1'')) (textState [] 0 0) = textState ''1'' 1 1"
    by (simp add: replaceSelectionWith_def toNormalizedRange_def textState_def
        applyValueAndSelection_def slice_0_take slice_from_drop clamp_def js_Cons
        Let_def strlen_def stringOf_def lengthOf_def)
  have h: "handleFocuslessGlobalKey ?nt failingBridge
     (keyDown ''Digit1'' False (Some (js ''&''))) (textState [] 0 0)
       = Inr (Action_none, textState ''1'' 1 1)"
    using text_production_step [OF p, of ?nt failingBridge "textState [] 0 0"] r1 i by simp
  show ?thesis
    using r1 r2 h m(2) k c(1) by (simp add: keyDown_def)
qed

subsection \<open>C2\<close>

text \<open>
  C2, as the code has it. \<open>replaceSelectionWith\<close> moves the caret by the number of code
  units inserted and \<open>deleteBackward\<close> removes one code unit. So for a state with
  in-range, collapsed selection and a string \<open>s\<close> of exactly one UTF-16 code unit (a
  scalar value of the Basic Multilingual Plane), \<open>deleteBackward\<close> after
  \<open>replaceSelectionWith s\<close> gives the state back: content and caret.
\<close>

theorem insert_one_code_unit_then_deleteBackward:
  assumes "selectionInBounds st" and "selectionStart st = selectionEnd st"
    and "length s = 1"
  shows "deleteBackward (replaceSelectionWith (JsString s) st) = st"
proof -
  from assms(1,2) obtain p where n: "selectionStart st = Num p" "selectionEnd st = Num p"
    and b: "0 \<le> p" "p \<le> strlen (valueStr st)"
    by (elim inBoundsE) simp
  let ?st1 = "replaceSelectionWith (JsString s) st"
  note ed = edges_inBounds [OF n]
  have r: "?st1 = st\<lparr>valueStr := take (nat p) (valueStr st) @ s @ drop (nat p) (valueStr st),
        selectionStart := Num (p + 1), selectionEnd := Num (p + 1)\<rparr>"
    using replaceSelectionWith_inBounds [OF assms(1), of s] assms(3)
    by (simp add: strlen_def ed)
  have i: "selectionInBounds ?st1"
    by (rule inBounds_replaceSelectionWith [OF inBounds_numeric [OF assms(1)]]) simp
  have d: "deleteBackward ?st1 =
     ?st1\<lparr>valueStr := take (nat (p + 1 - 1)) (valueStr ?st1)
                      @ drop (nat (p + 1)) (valueStr ?st1),
        selectionStart := Num (p + 1 - 1),
        selectionEnd := Num (p + 1 - 1)\<rparr>"
    using b by (intro deleteBackward_collapsed [OF i]) (simp_all add: r)
  have m: "nat (p + 1) = Suc (nat p)" using b by simp
  let ?v1 = "take (nat p) (valueStr st) @ s @ drop (nat p) (valueStr st)"
  have d': "deleteBackward ?st1 =
     st\<lparr>valueStr := take (nat p) ?v1 @ drop (Suc (nat p)) ?v1,
        selectionStart := Num p, selectionEnd := Num p\<rparr>"
    using d unfolding r by (simp add: m)
  have l: "length (take (nat p) (valueStr st)) = nat p"
    using b by (simp add: strlen_def)
  have v: "take (nat p) ?v1 @ drop (Suc (nat p)) ?v1 = valueStr st"
    using l assms(3) by simp
  have "st\<lparr>valueStr := valueStr st, selectionStart := Num p, selectionEnd := Num p\<rparr> = st"
    using n by (cases st) simp
  then show ?thesis
    unfolding d' v .
qed

theorem insert_one_code_unit_then_deleteBackward_witness:
  "selectionInBounds (textState ''helo'' 3 3) \<and>
   selectionStart (textState ''helo'' 3 3) = selectionEnd (textState ''helo'' 3 3) \<and>
   length (js ''l'') = 1 \<and>
   replaceSelectionWith (JsString (js ''l'')) (textState ''helo'' 3 3)
     = textState ''hello'' 4 4 \<and>
   deleteBackward (textState ''hello'' 4 4) = textState ''helo'' 3 3"
proof -
  have h: "selectionInBounds (textState ''helo'' 3 3)"
    "selectionStart (textState ''helo'' 3 3) = selectionEnd (textState ''helo'' 3 3)"
    "length (js ''l'') = 1"
    by code_simp+
  have r: "replaceSelectionWith (JsString (js ''l'')) (textState ''helo'' 3 3)
      = textState ''hello'' 4 4"
    by code_simp
  show ?thesis
    using h r insert_one_code_unit_then_deleteBackward [OF h] by simp
qed

text \<open>
  C2 as stated fails for a scalar value outside the Basic Multilingual Plane: U+1F600 is
  one scalar value and two code units. Inserting it at the end of \<open>hi\<close> moves the caret
  from 2 to 4; \<open>deleteBackward\<close> then removes only the low surrogate, leaving the high
  surrogate in the content and the caret at 3.
\<close>

theorem astral_scalar_round_trip_counterexample:
  "isScalarValue grinningFace \<and>
   selectionInBounds (textState ''hi'' 2 2) \<and>
   selectionStart (textState ''hi'' 2 2) = selectionEnd (textState ''hi'' 2 2) \<and>
   deleteBackward (replaceSelectionWith (JsString grinningFace) (textState ''hi'' 2 2))
     = (textState ''hi'' 3 3)\<lparr>valueStr := js ''hi'' @ [0xD83D]\<rparr> \<and>
   deleteBackward (replaceSelectionWith (JsString grinningFace) (textState ''hi'' 2 2))
     \<noteq> textState ''hi'' 2 2"
  by code_simp

subsection \<open>C3\<close>

text \<open>
  C3 fails in the code. The fallback of the interpreter inserts whatever
  \<open>mapPrintableCharacter\<close> found, and for the code \<open>__proto__\<close> the lookup in
  \<open>unshiftedSymbolMap\<close> finds \<open>Object.prototype\<close>. \<open>replaceSelectionWith\<close> then inserts
  \<open>[object Object]\<close> and computes the caret from a \<open>length\<close> that is \<open>undefined\<close>: both
  offsets are \<open>NaN\<close> afterwards, \<open>clamp\<close> having passed \<open>NaN\<close> through, and the clamp effect
  of the next render leaves them so. Whatever the text the runtime gives its built-in
  functions: from \<open>hi\<close> with the caret at 2, in range, the key event with code
  \<open>__proto__\<close> leaves content \<open>hi[object Object]\<close> and no offset in
  \<open>[0, length(content)]\<close>. By \<open>inBounds_handler_case\<close> it is the only code that does so
  from a state whose offsets are integers.
\<close>

theorem proto_key_leaves_offsets_NaN:
  "selectionInBounds (textState ''hi'' 2 2) \<and>
   resolveTextFromGlobalEvent nativeText (keyDown ''__proto__'' False None) = None \<and>
   mapPrintableCharacter nativeText (js ''__proto__'') False = Some JsObjectPrototype \<and>
   handleGlobalKey nativeText focuslessProps failingBridge (keyDown ''__proto__'' False None)
       (textState ''hi'' 2 2)
     = Inr (Action_none,
            (textState ''hi[object Object]'' 0 0)\<lparr>selectionStart := NaN, selectionEnd := NaN\<rparr>) \<and>
   \<not> selectionInBounds
       ((textState ''hi[object Object]'' 0 0)\<lparr>selectionStart := NaN, selectionEnd := NaN\<rparr>) \<and>
   clampEffect
       ((textState ''hi[object Object]'' 0 0)\<lparr>selectionStart := NaN, selectionEnd := NaN\<rparr>)
     = (textState ''hi[object Object]'' 0 0)\<lparr>selectionStart := NaN, selectionEnd := NaN\<rparr>"
proof -
  let ?ev = "keyDown ''__proto__'' False None"
  let ?st = "textState ''hi'' 2 2"
  let ?st' = "(textState ''hi[object Object]'' 0 0)\<lparr>selectionStart := NaN, selectionEnd := NaN\<rparr>"
  have i: "selectionInBounds ?st"
    by (simp add: selectionInBounds_def textState_def)
  have g: "getProperty nativeText unshiftedSymbolMap (js ''__proto__'') = Some JsObjectPrototype"
    by (simp add: getProperty_def unshiftedSymbolMap_def objectPrototype_def)
  have m: "mapPrintableCharacter nativeText (js ''__proto__'') False = Some JsObjectPrototype"
    by (simp add: mapPrintableCharacter_def test_prefix_class_def g truthy_def)
  have r: "resolveTextFromGlobalEvent nativeText ?ev = None"
    by (simp add: resolveTextFromGlobalEvent_def keyDown_def nonTextKeyCodes_def
        test_function_key_def js_Cons Let_def isLetterKey_def test_prefix_class_def
        forceCodeMappedCodes_def shiftedNumberMap_def shiftedSymbolMap_def
        unshiftedSymbolMap_def hasValidRaw_def normalizedText_def strlen_def)
  have p: "phase ?ev = Down \<and> \<not> ctrl ?ev \<and> \<not> meta ?ev \<and> \<not> alt ?ev
      \<and> code ?ev \<notin> set structuralKeyCodes"
    by (simp add: keyDown_def structuralKeyCodes_def)
  have c: "code ?ev = js ''__proto__''" "shift ?ev = False"
    by (simp_all add: keyDown_def)
  have s: "replaceSelectionWith JsObjectPrototype ?st = ?st'"
    by (simp add: replaceSelectionWith_def toNormalizedRange_def textState_def
        applyValueAndSelection_def slice_0_take slice_from_drop clamp_def
        Let_def stringOf_def lengthOf_def js_Cons)
  have h: "handleFocuslessGlobalKey nativeText failingBridge ?ev ?st = Inr (Action_none, ?st')"
    using text_production_step [OF p, of nativeText failingBridge ?st] r m s
    by (simp add: c)
  have k: "handleGlobalKey nativeText focuslessProps failingBridge ?ev ?st
      = Inr (Action_none, ?st')"
    using h by (simp add: handleGlobalKey_def focuslessProps_def)
  have n: "\<not> selectionInBounds ?st'"
    by (simp add: selectionInBounds_def)
  have e: "clampEffect ?st' = ?st'"
    by (rule clampEffect_NaN) simp_all
  show ?thesis
    using i r m k n e by simp
qed

subsection \<open>C4\<close>

text \<open>
  C4. On a state with in-range offsets: \<open>moveCaret(delta, false)\<close> with a non-empty
  selection puts both offsets on the minimum edge when \<open>delta < 0\<close> and on the maximum
  edge when \<open>delta > 0\<close>, without moving by \<open>delta\<close>; with an empty selection it puts both
  offsets on \<open>selectionEnd + delta\<close>, clamped; \<open>moveCaret(delta, true)\<close> puts
  \<open>selectionEnd\<close> on \<open>selectionEnd + delta\<close>, clamped, and leaves \<open>selectionStart\<close> and
  the rest of the state alone.
\<close>

theorem moveCaret_collapses_or_moves:
  assumes "selectionInBounds st"
  shows "(selectionStart st \<noteq> selectionEnd st \<and> delta < 0 \<longrightarrow>
            moveCaret delta False st =
              st\<lparr>selectionStart := math_min (selectionStart st) (selectionEnd st),
                 selectionEnd := math_min (selectionStart st) (selectionEnd st)\<rparr>) \<and>
         (selectionStart st \<noteq> selectionEnd st \<and> delta > 0 \<longrightarrow>
            moveCaret delta False st =
              st\<lparr>selectionStart := math_max (selectionStart st) (selectionEnd st),
                 selectionEnd := math_max (selectionStart st) (selectionEnd st)\<rparr>) \<and>
         (selectionStart st = selectionEnd st \<longrightarrow>
            moveCaret delta False st =
              st\<lparr>selectionStart :=
                   clamp (num_add (selectionEnd st) (Num delta)) 0 (strlen (valueStr st)),
                 selectionEnd :=
                   clamp (num_add (selectionEnd st) (Num delta)) 0 (strlen (valueStr st))\<rparr>) \<and>
         moveCaret delta True st =
           st\<lparr>selectionEnd :=
                clamp (num_add (selectionEnd st) (Num delta)) 0 (strlen (valueStr st))\<rparr>"
proof -
  from assms obtain s e where n: "selectionStart st = Num s" "selectionEnd st = Num e"
    and b: "0 \<le> s" "s \<le> strlen (valueStr st)" "0 \<le> e" "e \<le> strlen (valueStr st)"
    by (rule inBoundsE)
  have i: "max 0 (min (strlen (valueStr st)) (max 0 (min (strlen (valueStr st)) (e + delta))))
      = max 0 (min (strlen (valueStr st)) (e + delta))"
    by auto
  have m: "max 0 (min (strlen (valueStr st)) (min s e)) = min s e"
    "max 0 (min (strlen (valueStr st)) (max s e)) = max s e"
    "max 0 (min (strlen (valueStr st)) s) = s"
    using b by auto
  show ?thesis
    by (simp add: moveCaret_def toNormalizedRange_def Let_def updateSelection_def n
        clamp_def i m)
qed

theorem moveCaret_collapses_or_moves_witness:
  "selectionInBounds (textState ''hello'' 4 1) \<and>
   moveCaret (- 1) False (textState ''hello'' 4 1) = textState ''hello'' 1 1 \<and>
   moveCaret 1 False (textState ''hello'' 4 1) = textState ''hello'' 4 4 \<and>
   selectionInBounds (textState ''hello'' 5 5) \<and>
   moveCaret 1 False (textState ''hello'' 5 5) = textState ''hello'' 5 5 \<and>
   moveCaret (- 1) False (textState ''hello'' 5 5) = textState ''hello'' 4 4 \<and>
   moveCaret 1 True (textState ''hello'' 4 1) = textState ''hello'' 4 2"
proof -
  have h: "selectionInBounds (textState ''hello'' 4 1)"
    "selectionInBounds (textState ''hello'' 5 5)"
    by code_simp+
  show ?thesis
    using h moveCaret_collapses_or_moves [OF h(1), of "- 1"]
      moveCaret_collapses_or_moves [OF h(1), of 1]
      moveCaret_collapses_or_moves [OF h(2), of 1]
      moveCaret_collapses_or_moves [OF h(2), of "- 1"]
    by (simp add: textState_def clamp_def strlen_def js_def)
qed

subsection \<open>C5\<close>

text \<open>
  C5, as the code has it. On a state with in-range offsets, \<open>insertSuggestion\<close> replaces
  the text from the start of the word before the lower edge of the selection (the
  position after the nearest whitespace before that edge, or the buffer start) through
  the upper edge of the selection with \<open>@username\<close> or the emoji glyph followed by a
  space, puts both offsets just after the inserted text and hides the suggestions. With
  a collapsed selection this is the insertion of the specification: from the start of
  the current word through the caret. The statement is for a nearest whitespace before
  the lower edge that is a space, a tab or a newline, if there is one: by
  \<open>insertSuggestion_collapsed_spec_iff\<close> these are exactly the texts on which
  \<open>insertSuggestion\<close> finds the start of the word. Inserting the mention of \<open>alice\<close> into
  \<open>hello @al\<close> with the caret at the end gives \<open>hello @alice \<close> with the caret at 13.
\<close>

theorem insertSuggestion_replaces_current_word:
  assumes "selectionInBounds st"
    and "lastWhitespaceIsPlain (sliceStr (valueStr st) 0 (lowerEdge st))"
  shows "insertSuggestion sg st =
           st\<lparr>valueStr :=
                sliceStr (valueStr st) 0 (lowerEdge st - strlen (wordBeforeSelection st))
                @ suggestionReplacement sg @ js '' ''
                @ slice_from (valueStr st) (upperEdge st),
              selectionStart :=
                Num (lowerEdge st - strlen (wordBeforeSelection st)
                     + strlen (suggestionReplacement sg @ js '' '')),
              selectionEnd :=
                Num (lowerEdge st - strlen (wordBeforeSelection st)
                     + strlen (suggestionReplacement sg @ js '' '')),
              showSuggestions := False\<rparr> \<and>
         (selectionStart st = selectionEnd st \<longrightarrow>
            insertSuggestion sg st = spec_insertSuggestion sg st) \<and>
         \<not> showSuggestions (insertSuggestion sg st) \<and>
         suggestionReplacement (Mention u) = js ''@'' @ u \<and>
         suggestionReplacement (Emoji e) = emoji e \<and>
         insertSuggestion (Mention (js ''alice'')) (textState ''hello @al'' 9 9)
           = textState ''hello @alice '' 13 13"
proof -
  have x: "insertSuggestion (Mention (js ''alice'')) (textState ''hello @al'' 9 9)
           = textState ''hello @alice '' 13 13"
    using insert_alice_hello [of "textState ''hello @al'' 9 9"]
    by (simp add: textState_def)
  have h: "\<not> showSuggestions (insertSuggestion sg st)"
    by (simp add: insertSuggestion_def Let_def split: prod.split)
  have c: "selectionStart st = selectionEnd st \<longrightarrow>
            insertSuggestion sg st = spec_insertSuggestion sg st"
    using insertSuggestion_collapsed_spec [OF assms, of sg] by simp
  show ?thesis
    using insertSuggestion_inBounds [OF assms, of sg] c x h
    by (simp add: suggestionReplacement_def)
qed

theorem insertSuggestion_replaces_current_word_witness:
  "selectionInBounds (mentionSession 0) \<and>
   lastWhitespaceIsPlain (sliceStr (valueStr (mentionSession 0)) 0 (lowerEdge (mentionSession 0))) \<and>
   insertSuggestion (Mention (js ''alice'')) (mentionSession 0)
     = (mentionSession 0)\<lparr>valueStr := js ''hello @alice '', selectionStart := Num 13,
          selectionEnd := Num 13, showSuggestions := False\<rparr> \<and>
   spec_insertSuggestion (Mention (js ''alice'')) (mentionSession 0)
     = (mentionSession 0)\<lparr>valueStr := js ''hello @alice '', selectionStart := Num 13,
          selectionEnd := Num 13, showSuggestions := False\<rparr>"
proof -
  let ?st = "mentionSession 0"
  have f: "valueStr ?st = js ''hello @al''" "selectionStart ?st = Num 9"
    "selectionEnd ?st = Num 9"
    by (simp_all add: mentionSession_def)
  have i: "selectionInBounds ?st"
    by (simp add: selectionInBounds_def f)
  have ed: "lowerEdge ?st = 9" "upperEdge ?st = 9"
    using edges_inBounds [OF f(2,3)] by simp_all
  have b: "sliceStr (valueStr ?st) 0 (lowerEdge ?st) = js ''hello @al''"
    by (simp add: f ed slice_0_take)
  have w: "lastWhitespaceIsPlain (sliceStr (valueStr ?st) 0 (lowerEdge ?st))"
    unfolding b by (rule plain_whitespace_hello)
  have v: "wordBeforeSelection ?st = js ''@al''"
    using b lastWordOf_hello by (simp add: wordBeforeSelection_def)
  have t: "sliceStr (valueStr ?st) 0 (9 - 3) @ suggestionReplacement (Mention (js ''alice''))
      @ js '' '' @ slice_from (valueStr ?st) 9 = js ''hello @alice ''"
    by (simp add: f slice_0_take slice_from_drop suggestionReplacement_def js_Cons)
  have l: "strlen (suggestionReplacement (Mention (js ''alice'')) @ js '' '') = 7"
    by (simp add: suggestionReplacement_def strlen_def)
  note inst = insertSuggestion_replaces_current_word [OF i w, of "Mention (js ''alice'')"]
  have e: "insertSuggestion (Mention (js ''alice'')) ?st
     = ?st\<lparr>valueStr := js ''hello @alice '', selectionStart := Num 13,
          selectionEnd := Num 13, showSuggestions := False\<rparr>"
    using inst [THEN conjunct1] t by (simp add: ed v l)
  have s: "insertSuggestion (Mention (js ''alice'')) ?st
      = spec_insertSuggestion (Mention (js ''alice'')) ?st"
    using inst [THEN conjunct2, THEN conjunct1] by (simp add: f)
  show ?thesis using i w e s by simp
qed

text \<open>
  C5 as stated fails when a selection exists. With content \<open>x @al\<close> selected from 0 to
  5 the suggestions for \<open>@al\<close> are shown, the caret is at 5 and the current word starts
  at 2; \<open>Tab\<close> inserts the first suggestion, and \<open>insertSuggestion\<close> looks for the word
  before offset 0, replaces the whole selection and leaves \<open>@alice \<close> with the caret at
  7, where the replacement from the start of the current word through the caret would
  leave \<open>x @alice \<close> with the caret at 9.

  It also fails, with a collapsed selection, when the nearest whitespace before the
  caret is none of space, tab and newline. The \<open>Space\<close> key with composed text U+3000
  (a Japanese input method) inserts the ideographic space; with content \<open>a\<close>, U+3000,
  \<open>@al\<close> and the caret at the end, 5, the suggestions for \<open>@al\<close> are shown and the current
  word starts at 2; \<open>Tab\<close> leaves \<open>@alice \<close> with the caret at 7: the text before the word
  is gone, where the replacement from the start of the current word would leave \<open>a\<close>,
  U+3000, \<open>@alice \<close> with the caret at 9.
\<close>

theorem insertSuggestion_with_selection_counterexample:
  "recomputeSuggestions toLowerCaseAscii noEmoji aliceProps (textState ''x @al'' 0 5)
     = selectedSession \<and>
   selectionInBounds selectedSession \<and>
   handleFocuslessGlobalKey oneLineNativeText failingBridge (keyDown ''Tab'' False None)
       selectedSession
     = Inr (Action_none, insertSuggestion (Mention (js ''alice'')) selectedSession) \<and>
   valueStr (insertSuggestion (Mention (js ''alice'')) selectedSession) = js ''@alice '' \<and>
   selectionEnd (insertSuggestion (Mention (js ''alice'')) selectedSession) = Num 7 \<and>
   valueStr (spec_insertSuggestion (Mention (js ''alice'')) selectedSession)
     = js ''x @alice '' \<and>
   selectionEnd (spec_insertSuggestion (Mention (js ''alice'')) selectedSession) = Num 9 \<and>
   insertSuggestion (Mention (js ''alice'')) selectedSession
     \<noteq> spec_insertSuggestion (Mention (js ''alice'')) selectedSession \<and>
   handleFocuslessGlobalKey oneLineNativeText failingBridge
       (keyDown ''Space'' False (Some [0x3000])) (textState ''a'' 1 1)
     = Inr (Action_none, (textState ''a'' 2 2)\<lparr>valueStr := [0x61, 0x3000]\<rparr>) \<and>
   recomputeSuggestions toLowerCaseAscii noEmoji aliceProps
       (wideSpaceSession\<lparr>suggestions := [], showSuggestions := False\<rparr>)
     = wideSpaceSession \<and>
   selectionInBounds wideSpaceSession \<and>
   selectionStart wideSpaceSession = selectionEnd wideSpaceSession \<and>
   handleFocuslessGlobalKey oneLineNativeText failingBridge (keyDown ''Tab'' False None)
       wideSpaceSession
     = Inr (Action_none, insertSuggestion (Mention (js ''alice'')) wideSpaceSession) \<and>
   valueStr (insertSuggestion (Mention (js ''alice'')) wideSpaceSession) = js ''@alice '' \<and>
   selectionEnd (insertSuggestion (Mention (js ''alice'')) wideSpaceSession) = Num 7 \<and>
   valueStr (spec_insertSuggestion (Mention (js ''alice'')) wideSpaceSession)
     = 0x61 # 0x3000 # js ''@alice '' \<and>
   selectionEnd (spec_insertSuggestion (Mention (js ''alice'')) wideSpaceSession) = Num 9"
proof -
  let ?nt = oneLineNativeText
  have r: "recomputeSuggestions toLowerCaseAscii noEmoji aliceProps (textState ''x @al'' 0 5)
     = selectedSession"
    using recompute_mention [of "textState ''x @al'' 0 5"] lastWordOf_x(1)
    by (simp add: textState_def slice_0_take selectedSession_def)
  have i: "selectionInBounds selectedSession"
    by (simp add: selectionInBounds_def selectedSession_def)
  have t: "handleFocuslessGlobalKey ?nt failingBridge (keyDown ''Tab'' False None)
       selectedSession
     = Inr (Action_none, insertSuggestion (Mention (js ''alice'')) selectedSession)"
    by (simp add: handleFocuslessGlobalKey_def no_clipboard_without_ctrl_meta keyDown_def)
       (simp add: selectedSession_def)
  have n: "insertSuggestion (Mention (js ''alice'')) selectedSession
     \<noteq> spec_insertSuggestion (Mention (js ''alice'')) selectedSession"
    unfolding insert_alice_selected spec_insert_alice_selected
    by (simp add: selectedSession_def)
  let ?sp = "keyDown ''Space'' False (Some [0x3000])"
  have p: "phase ?sp = Down \<and> \<not> ctrl ?sp \<and> \<not> meta ?sp \<and> \<not> alt ?sp
      \<and> code ?sp \<notin> set structuralKeyCodes"
    by (simp add: keyDown_def structuralKeyCodes_def)
  have tx: "textOpt ?sp = Some [0x3000]" by (simp add: keyDown_def)
  have nc: "noControlCharacters [0x3000]" by (simp add: noControlCharacters_def)
  have rs: "resolveTextFromGlobalEvent ?nt ?sp = Some (JsString [0x3000])"
    using hasValidRaw_valid [OF tx _ nc] normalizedText_valid [OF tx nc]
    by (simp add: resolveTextFromGlobalEvent_def Let_def)
       (simp add: keyDown_def nonTextKeyCodes_def test_function_key_def js_Cons
        test_prefix_class_def forceCodeMappedCodes_def shiftedNumberMap_def
        shiftedSymbolMap_def unshiftedSymbolMap_def)
  have ia: "selectionInBounds (textState ''a'' 1 1)"
    by (simp add: selectionInBounds_def textState_def)
  have ea: "lowerEdge (textState ''a'' 1 1) = 1" "upperEdge (textState ''a'' 1 1) = 1"
    by (simp_all add: lowerEdge_def upperEdge_def textState_def)
  have ra: "replaceSelectionWith (JsString [0x3000]) (textState ''a'' 1 1)
      = (textState ''a'' 2 2)\<lparr>valueStr := [0x61, 0x3000]\<rparr>"
    unfolding replaceSelectionWith_inBounds [OF ia] ea
    by (simp add: textState_def js_Cons strlen_def)
  have sp: "handleFocuslessGlobalKey ?nt failingBridge ?sp (textState ''a'' 1 1)
     = Inr (Action_none, (textState ''a'' 2 2)\<lparr>valueStr := [0x61, 0x3000]\<rparr>)"
    using text_production_step [OF p, of ?nt failingBridge "textState ''a'' 1 1"] rs ra
    by simp
  let ?w0 = "wideSpaceSession\<lparr>suggestions := [], showSuggestions := False\<rparr>"
  have rw: "recomputeSuggestions toLowerCaseAscii noEmoji aliceProps ?w0 = wideSpaceSession"
    using recompute_mention [of ?w0] lastWordOf_wide
    by (simp add: wideSpaceSession_def slice_0_take)
  have iw: "selectionInBounds wideSpaceSession"
    by (simp add: selectionInBounds_def wideSpaceSession_def strlen_def)
  have cw: "selectionStart wideSpaceSession = selectionEnd wideSpaceSession"
    by (simp add: wideSpaceSession_def)
  have tw: "handleFocuslessGlobalKey ?nt failingBridge (keyDown ''Tab'' False None)
       wideSpaceSession
     = Inr (Action_none, insertSuggestion (Mention (js ''alice'')) wideSpaceSession)"
    by (simp add: handleFocuslessGlobalKey_def no_clipboard_without_ctrl_meta keyDown_def)
       (simp add: wideSpaceSession_def)
  show ?thesis
    using r i t n sp rw iw cw tw
    by (simp add: insert_alice_selected spec_insert_alice_selected
        insert_alice_wide spec_insert_alice_wide)
qed

subsection \<open>C6\<close>

text \<open>
  C6. A key-down event with ctrl or meta held, alt not held and code \<open>KeyA\<close>, \<open>KeyC\<close>,
  \<open>KeyX\<close> or \<open>KeyV\<close> is consumed: \<open>handleGlobalKey\<close> answers \<open>none\<close> whatever the
  clipboard bridge does. Copy returns the state as it was (in particular with an empty
  selection); cut with a non-empty selection returns \<open>replaceSelectionWith ""\<close> of the
  state whether the write resolves or rejects; paste returns the state as it was when the
  read rejects or yields the empty string.
\<close>

theorem clipboard_shortcuts_consume:
  assumes "phase ev = Down" and "ctrl ev \<or> meta ev" and "\<not> alt ev"
    and "code ev \<in> {js ''KeyA'', js ''KeyC'', js ''KeyX'', js ''KeyV''}"
  shows "(\<exists>st'. handleGlobalKey nativeText props bridge ev st = Inr (Action_none, st')) \<and>
         (\<exists>st'. handleFocuslessGlobalKey nativeText bridge ev st = Inr (Action_none, st')) \<and>
         (code ev = js ''KeyC'' \<longrightarrow>
            handleFocuslessGlobalKey nativeText bridge ev st = Inr (Action_none, st)) \<and>
         (code ev = js ''KeyX'' \<longrightarrow>
            handleFocuslessGlobalKey nativeText bridge ev st
              = Inr (Action_none,
                     if selectedText st = [] then st
                     else replaceSelectionWith (JsString []) st)) \<and>
         (code ev = js ''KeyV'' \<and>
            (read_clipboard_text bridge = None \<or> read_clipboard_text bridge = Some []) \<longrightarrow>
            handleFocuslessGlobalKey nativeText bridge ev st = Inr (Action_none, st))"
proof -
  have h: "handleFocuslessGlobalKey nativeText bridge ev st
           = Inr (Action_none, snd (handleClipboardShortcut bridge ev st))"
    using assms clipboard_consumes handler_clipboard by blast
  have s: "(code ev = js ''KeyC'' \<longrightarrow> snd (handleClipboardShortcut bridge ev st) = st) \<and>
         (code ev = js ''KeyX'' \<longrightarrow>
            snd (handleClipboardShortcut bridge ev st)
              = (if selectedText st = [] then st else replaceSelectionWith (JsString []) st)) \<and>
         (code ev = js ''KeyV'' \<longrightarrow>
            snd (handleClipboardShortcut bridge ev st)
              = (case read_clipboard_text bridge of
                   None \<Rightarrow> st
                 | Some t \<Rightarrow> if t = [] then st else replaceSelectionWith (JsString t) st))"
    using clipboard_state [OF assms(1-3), of bridge st] by blast
  show ?thesis
    using h s by (auto simp: handleGlobalKey_def)
qed

theorem clipboard_shortcuts_consume_witness:
  "handleFocuslessGlobalKey oneLineNativeText failingBridge (ctrlDown ''KeyX'')
     (textState ''hello'' 1 3) = Inr (Action_none, textState ''hlo'' 1 1) \<and>
   handleFocuslessGlobalKey oneLineNativeText failingBridge (ctrlDown ''KeyC'')
     (textState ''hello'' 3 3) = Inr (Action_none, textState ''hello'' 3 3) \<and>
   handleFocuslessGlobalKey oneLineNativeText failingBridge (ctrlDown ''KeyV'')
     (textState ''hello'' 1 3) = Inr (Action_none, textState ''hello'' 1 3)"
proof -
  have p: "phase (ctrlDown kc) = Down" and m: "ctrl (ctrlDown kc) \<or> meta (ctrlDown kc)"
    and a: "\<not> alt (ctrlDown kc)" and c: "code (ctrlDown kc) = js kc" for kc
    by (simp_all add: ctrlDown_def keyDown_def)
  have k: "code (ctrlDown ''KeyX'') \<in> {js ''KeyA'', js ''KeyC'', js ''KeyX'', js ''KeyV''}"
    "code (ctrlDown ''KeyC'') \<in> {js ''KeyA'', js ''KeyC'', js ''KeyX'', js ''KeyV''}"
    "code (ctrlDown ''KeyV'') \<in> {js ''KeyA'', js ''KeyC'', js ''KeyX'', js ''KeyV''}"
    by (simp_all add: c)
  have r: "read_clipboard_text failingBridge = None"
    by (simp add: failingBridge_def)
  have x: "selectedText (textState ''hello'' 1 3) \<noteq> []"
    "replaceSelectionWith (JsString []) (textState ''hello'' 1 3) = textState ''hlo'' 1 1"
    by code_simp+
  show ?thesis
    using clipboard_shortcuts_consume [OF p m a k(1), of oneLineNativeText focuslessProps
        failingBridge "textState ''hello'' 1 3"]
      clipboard_shortcuts_consume [OF p m a k(2), of oneLineNativeText focuslessProps
        failingBridge "textState ''hello'' 3 3"]
      clipboard_shortcuts_consume [OF p m a k(3), of oneLineNativeText focuslessProps
        failingBridge "textState ''hello'' 1 3"]
    by (simp add: c r x)
qed

subsection \<open>C7\<close>

text \<open>
  C7. A key-down event with no ctrl, meta or alt and code \<open>Enter\<close> or \<open>NumpadEnter\<close> is
  answered with \<open>submit\<close>, and \<open>Escape\<close> with \<open>cancel\<close>; in both cases the state
  (content, selection offsets and suggestion session) is returned as it was. This is the
  interpreter \<open>handleFocuslessGlobalKey\<close>, which \<open>handleGlobalKey\<close> runs in focusless mode.
\<close>

theorem enter_submits_escape_cancels:
  assumes "phase ev = Down" and "\<not> ctrl ev \<and> \<not> meta ev \<and> \<not> alt ev"
  shows "(code ev = js ''Enter'' \<or> code ev = js ''NumpadEnter'' \<longrightarrow>
            handleFocuslessGlobalKey nativeText bridge ev st = Inr (Action_submit, st) \<and>
            (mode props = Focusless \<longrightarrow>
               handleGlobalKey nativeText props bridge ev st = Inr (Action_submit, st))) \<and>
         (code ev = js ''Escape'' \<longrightarrow>
            handleFocuslessGlobalKey nativeText bridge ev st = Inr (Action_cancel, st) \<and>
            (mode props = Focusless \<longrightarrow>
               handleGlobalKey nativeText props bridge ev st = Inr (Action_cancel, st)))"
  using assms
  by (auto simp: handleGlobalKey_def handleFocuslessGlobalKey_def
      no_clipboard_without_ctrl_meta)

theorem enter_submits_escape_cancels_witness:
  "handleGlobalKey oneLineNativeText focuslessProps failingBridge
     (keyDown ''Enter'' False None) (textState ''Hi 1'' 4 4)
     = Inr (Action_submit, textState ''Hi 1'' 4 4) \<and>
   handleGlobalKey oneLineNativeText focuslessProps failingBridge
     (keyDown ''NumpadEnter'' False None) (textState ''Hi 1'' 4 4)
     = Inr (Action_submit, textState ''Hi 1'' 4 4) \<and>
   handleGlobalKey oneLineNativeText focuslessProps failingBridge
     (keyDown ''Escape'' False None) (textState ''Hi 1'' 4 4)
     = Inr (Action_cancel, textState ''Hi 1'' 4 4)"
proof -
  have p: "phase (keyDown kc False None) = Down" for kc
    by (simp add: keyDown_def)
  have m: "\<not> ctrl (keyDown kc False None) \<and> \<not> meta (keyDown kc False None)
      \<and> \<not> alt (keyDown kc False None)" for kc
    by (simp add: keyDown_def)
  have c: "code (keyDown kc False None) = js kc" for kc
    by (simp add: keyDown_def)
  have f: "mode focuslessProps = Focusless"
    by (simp add: focuslessProps_def)
  show ?thesis
    using enter_submits_escape_cancels [OF p [of "''Enter''"] m [of "''Enter''"],
        where nativeText = oneLineNativeText and bridge = failingBridge
        and st = "textState ''Hi 1'' 4 4" and props = focuslessProps]
      enter_submits_escape_cancels [OF p [of "''NumpadEnter''"] m [of "''NumpadEnter''"],
        where nativeText = oneLineNativeText and bridge = failingBridge
        and st = "textState ''Hi 1'' 4 4" and props = focuslessProps]
      enter_submits_escape_cancels [OF p [of "''Escape''"] m [of "''Escape''"],
        where nativeText = oneLineNativeText and bridge = failingBridge
        and st = "textState ''Hi 1'' 4 4" and props = focuslessProps]
    by (simp add: c f)
qed

subsection \<open>C8\<close>

text \<open>
  C8. The effect that recomputes the candidates sets \<open>activeIndex\<close> to 0 and shows the
  list only when it is non-empty, so the index is in range afterwards. Every key event
  keeps the index in range while the list is shown, and so do the insertion of a
  suggestion (which hides the list) and the clamp effect. With the list shown and non-empty,
  \<open>ArrowDown\<close> puts the index on \<open>(activeIndex + 1) mod n\<close> and \<open>ArrowUp\<close> on
  \<open>(activeIndex - 1) mod n\<close>, \<open>n\<close> the number of candidates; with no candidates both
  keys return the state as it was.
\<close>

theorem activeIndex_in_range_and_cycles:
  "activeIndex (recomputeSuggestions lower findEmoji props st) = 0 \<and>
   activeIndexInRange (recomputeSuggestions lower findEmoji props st) \<and>
   (activeIndexInRange st \<and>
    handleFocuslessGlobalKey nativeText bridge ev st = Inr (a, st') \<longrightarrow>
      activeIndexInRange st') \<and>
   activeIndexInRange (insertSuggestion sg st) \<and>
   (activeIndexInRange st \<longrightarrow> activeIndexInRange (clampEffect st)) \<and>
   (phase ev = Down \<and> \<not> ctrl ev \<and> \<not> meta ev \<and> \<not> alt ev \<and>
    showSuggestions st \<and> suggestions st \<noteq> [] \<and> activeIndexInRange st \<longrightarrow>
      (code ev = js ''ArrowDown'' \<longrightarrow>
         handleFocuslessGlobalKey nativeText bridge ev st =
           Inr (Action_none,
                st\<lparr>activeIndex := (activeIndex st + 1) mod int (length (suggestions st))\<rparr>)) \<and>
      (code ev = js ''ArrowUp'' \<longrightarrow>
         handleFocuslessGlobalKey nativeText bridge ev st =
           Inr (Action_none,
                st\<lparr>activeIndex := (activeIndex st - 1) mod int (length (suggestions st))\<rparr>))) \<and>
   (phase ev = Down \<and> \<not> ctrl ev \<and> \<not> meta ev \<and> \<not> alt ev \<and>
    (code ev = js ''ArrowDown'' \<or> code ev = js ''ArrowUp'') \<and> suggestions st = [] \<longrightarrow>
      handleFocuslessGlobalKey nativeText bridge ev st = Inr (Action_none, st))"
proof -
  have h: "activeIndexInRange st \<and>
      handleFocuslessGlobalKey nativeText bridge ev st = Inr (a, st') \<longrightarrow>
      activeIndexInRange st'"
    using inRange_handler_case [of st nativeText bridge ev] by auto
  have n: "showSuggestions st \<and> suggestions st \<noteq> [] \<and> activeIndexInRange st \<longrightarrow>
      js_rem (activeIndex st + 1) (int (length (suggestions st)))
        = (activeIndex st + 1) mod int (length (suggestions st)) \<and>
      (if activeIndex st = 0 then int (length (suggestions st)) - 1 else activeIndex st - 1)
        = (activeIndex st - 1) mod int (length (suggestions st))"
    using inRange_next(1) [of st] inRange_previous(1) [of st] by simp
  have c: "phase ev = Down \<and> \<not> ctrl ev \<and> \<not> meta ev \<and> \<not> alt ev \<and>
    showSuggestions st \<and> suggestions st \<noteq> [] \<and> activeIndexInRange st \<longrightarrow>
      (code ev = js ''ArrowDown'' \<longrightarrow>
         handleFocuslessGlobalKey nativeText bridge ev st =
           Inr (Action_none,
                st\<lparr>activeIndex := (activeIndex st + 1) mod int (length (suggestions st))\<rparr>)) \<and>
      (code ev = js ''ArrowUp'' \<longrightarrow>
         handleFocuslessGlobalKey nativeText bridge ev st =
           Inr (Action_none,
                st\<lparr>activeIndex := (activeIndex st - 1) mod int (length (suggestions st))\<rparr>))"
    using n handler_ArrowDown [of ev nativeText bridge st]
      handler_ArrowUp [of ev nativeText bridge st]
    by simp
  have e: "phase ev = Down \<and> \<not> ctrl ev \<and> \<not> meta ev \<and> \<not> alt ev \<and>
    (code ev = js ''ArrowDown'' \<or> code ev = js ''ArrowUp'') \<and> suggestions st = [] \<longrightarrow>
      handleFocuslessGlobalKey nativeText bridge ev st = Inr (Action_none, st)"
    using handler_ArrowDown [of ev nativeText bridge st]
      handler_ArrowUp [of ev nativeText bridge st]
    by auto
  have k: "activeIndexInRange st \<longrightarrow> activeIndexInRange (clampEffect st)"
    using inRange_transfer [of st "clampEffect st"] by simp
  show ?thesis
    using h c e k inRange_recompute [of lower findEmoji props st]
      inRange_insertSuggestion [of sg st]
    by (intro conjI) simp_all
qed

theorem activeIndex_in_range_and_cycles_witness:
  "recomputeSuggestions toLowerCaseAscii noEmoji aliceProps
      ((textState ''hello @al'' 9 9)\<lparr>activeIndex := 7\<rparr>) = mentionSession 0 \<and>
   activeIndexInRange (mentionSession 0) \<and>
   handleFocuslessGlobalKey oneLineNativeText failingBridge (keyDown ''ArrowDown'' False None)
       (mentionSession 0)
     = Inr (Action_none, mentionSession 1) \<and>
   activeIndexInRange (mentionSession 1) \<and>
   handleFocuslessGlobalKey oneLineNativeText failingBridge (keyDown ''ArrowDown'' False None)
       (mentionSession 1)
     = Inr (Action_none, mentionSession 0) \<and>
   handleFocuslessGlobalKey oneLineNativeText failingBridge (keyDown ''ArrowUp'' False None)
       (mentionSession 0)
     = Inr (Action_none, mentionSession 1) \<and>
   handleFocuslessGlobalKey oneLineNativeText failingBridge (keyDown ''ArrowUp'' False None)
       (textState ''hello'' 5 5)
     = Inr (Action_none, textState ''hello'' 5 5)"
proof -
  let ?down = "keyDown ''ArrowDown'' False None"
  let ?up = "keyDown ''ArrowUp'' False None"
  have r: "recomputeSuggestions toLowerCaseAscii noEmoji aliceProps
      ((textState ''hello @al'' 9 9)\<lparr>activeIndex := 7\<rparr>) = mentionSession 0"
    by code_simp
  have i: "activeIndexInRange (mentionSession 0)" "activeIndexInRange (mentionSession 1)"
    by (simp_all add: activeIndexInRange_def mentionSession_def)
  have e: "phase ?down = Down \<and> \<not> ctrl ?down \<and> \<not> meta ?down \<and> \<not> alt ?down"
    "phase ?up = Down \<and> \<not> ctrl ?up \<and> \<not> meta ?up \<and> \<not> alt ?up"
    "code ?down = js ''ArrowDown''" "code ?up = js ''ArrowUp''"
    by (simp_all add: keyDown_def)
  have s: "showSuggestions (mentionSession k)" "suggestions (mentionSession k) \<noteq> []"
    "suggestions (textState ''hello'' 5 5) = []"
    "int (length (suggestions (mentionSession k))) = 2" "activeIndex (mentionSession k) = k"
    "(mentionSession k)\<lparr>activeIndex := j\<rparr> = mentionSession j" for k j
    by (simp_all add: mentionSession_def textState_def)
  have a1: "handleFocuslessGlobalKey oneLineNativeText failingBridge ?down (mentionSession 0)
     = Inr (Action_none, mentionSession 1)"
    using activeIndex_in_range_and_cycles [where st = "mentionSession 0"
        and bridge = failingBridge and ev = ?down and nativeText = oneLineNativeText] e s i by simp
  have a2: "handleFocuslessGlobalKey oneLineNativeText failingBridge ?down (mentionSession 1)
     = Inr (Action_none, mentionSession 0)"
    using activeIndex_in_range_and_cycles [where st = "mentionSession 1"
        and bridge = failingBridge and ev = ?down and nativeText = oneLineNativeText] e s i by simp
  have a3: "handleFocuslessGlobalKey oneLineNativeText failingBridge ?up (mentionSession 0)
     = Inr (Action_none, mentionSession 1)"
    using activeIndex_in_range_and_cycles [where st = "mentionSession 0"
        and bridge = failingBridge and ev = ?up and nativeText = oneLineNativeText] e s i by simp
  have a4: "handleFocuslessGlobalKey oneLineNativeText failingBridge ?up (textState ''hello'' 5 5)
     = Inr (Action_none, textState ''hello'' 5 5)"
    using activeIndex_in_range_and_cycles [where st = "textState ''hello'' 5 5"
        and bridge = failingBridge and ev = ?up and nativeText = oneLineNativeText] e s by simp
  have a5: "activeIndexInRange (mentionSession 1)"
    using activeIndex_in_range_and_cycles [where st = "mentionSession 0"
        and bridge = failingBridge and ev = ?down and a = Action_none
        and st' = "mentionSession 1" and nativeText = oneLineNativeText] i(1) a1 by blast
  show ?thesis
    using r i(1) a1 a2 a3 a4 a5 by simp
qed

subsection \<open>C9\<close>

text \<open>
  C9. No edit looks at \<open>maxLength\<close>: what \<open>handleGlobalKey\<close> returns does not change
  when \<open>maxLength\<close> does; \<open>replaceSelectionWith\<close> puts the whole inserted text between the
  text before and the text after the selection, so the content is at least as long as
  the inserted text; a paste of clipboard text longer than \<open>maxLength\<close> leaves content
  longer than \<open>maxLength\<close>. The only value computed from \<open>maxLength\<close> is the counter
  \<open>remainingChars = maxLength - value.trim().length\<close>.
\<close>

theorem maxLength_never_limits_edits:
  "handleGlobalKey nativeText (props\<lparr>maxLength := m\<rparr>) bridge ev st
     = handleGlobalKey nativeText props bridge ev st \<and>
   remainingChars props st = maxLength props - strlen (trim (valueStr st)) \<and>
   (selectionInBounds st \<longrightarrow>
      valueStr (replaceSelectionWith (JsString ins) st)
        = take (nat (lowerEdge st)) (valueStr st) @ ins
          @ drop (nat (upperEdge st)) (valueStr st) \<and>
      strlen ins \<le> strlen (valueStr (replaceSelectionWith (JsString ins) st))) \<and>
   (selectionInBounds st \<and> mode props = Focusless \<and> read_clipboard_text bridge = Some ins
      \<and> ins \<noteq> [] \<and> maxLength props < strlen ins \<longrightarrow>
      (\<exists>st'. handleGlobalKey nativeText props bridge (ctrlDown ''KeyV'') st
                = Inr (Action_none, st') \<and>
             maxLength props < strlen (valueStr st') \<and>
             valueStr st' = valueStr (replaceSelectionWith (JsString ins) st)))"
proof -
  have a: "handleGlobalKey nativeText (props\<lparr>maxLength := m\<rparr>) bridge ev st
      = handleGlobalKey nativeText props bridge ev st"
    by (simp add: handleGlobalKey_def)
  have b: "remainingChars props st = maxLength props - strlen (trim (valueStr st))"
    by (simp add: remainingChars_def)
  have c: "selectionInBounds st \<longrightarrow>
      valueStr (replaceSelectionWith (JsString ins) st)
        = take (nat (lowerEdge st)) (valueStr st) @ ins
          @ drop (nat (upperEdge st)) (valueStr st) \<and>
      strlen ins \<le> strlen (valueStr (replaceSelectionWith (JsString ins) st))"
  proof
    assume i: "selectionInBounds st"
    show "valueStr (replaceSelectionWith (JsString ins) st)
        = take (nat (lowerEdge st)) (valueStr st) @ ins
          @ drop (nat (upperEdge st)) (valueStr st) \<and>
      strlen ins \<le> strlen (valueStr (replaceSelectionWith (JsString ins) st))"
      unfolding replaceSelectionWith_inBounds [OF i] by (simp add: strlen_def)
  qed
  have d: "selectionInBounds st \<and> mode props = Focusless \<and> read_clipboard_text bridge = Some ins
      \<and> ins \<noteq> [] \<and> maxLength props < strlen ins \<longrightarrow>
      (\<exists>st'. handleGlobalKey nativeText props bridge (ctrlDown ''KeyV'') st
                = Inr (Action_none, st') \<and>
             maxLength props < strlen (valueStr st') \<and>
             valueStr st' = valueStr (replaceSelectionWith (JsString ins) st))"
  proof
    assume h: "selectionInBounds st \<and> mode props = Focusless
      \<and> read_clipboard_text bridge = Some ins \<and> ins \<noteq> [] \<and> maxLength props < strlen ins"
    then have n: "ins \<noteq> []" by simp
    have "handleGlobalKey nativeText props bridge (ctrlDown ''KeyV'') st
        = Inr (Action_none, replaceSelectionWith (JsString ins) st)"
      using h handler_paste [OF _ n, of bridge nativeText st] by (simp add: handleGlobalKey_def)
    moreover have "maxLength props < strlen (valueStr (replaceSelectionWith (JsString ins) st))"
      using c h by linarith
    ultimately show "\<exists>st'. handleGlobalKey nativeText props bridge (ctrlDown ''KeyV'') st
          = Inr (Action_none, st') \<and>
        maxLength props < strlen (valueStr st') \<and>
        valueStr st' = valueStr (replaceSelectionWith (JsString ins) st)"
      by blast
  qed
  show ?thesis using a b c d by blast
qed

theorem maxLength_never_limits_edits_witness:
  "selectionInBounds (textState ''ab'' 2 2) \<and>
   handleGlobalKey oneLineNativeText tinyProps (pastingBridge (js ''hello'')) (ctrlDown ''KeyV'')
     (textState ''ab'' 2 2) = Inr (Action_none, textState ''abhello'' 7 7) \<and>
   maxLength tinyProps < strlen (valueStr (textState ''abhello'' 7 7)) \<and>
   remainingChars tinyProps (textState ''abhello'' 7 7) = - 4"
proof -
  let ?st = "textState ''ab'' 2 2"
  let ?nt = oneLineNativeText
  have f: "valueStr ?st = js ''ab''" "selectionStart ?st = Num 2" "selectionEnd ?st = Num 2"
    by (simp_all add: textState_def)
  have i: "selectionInBounds ?st"
    by (simp add: selectionInBounds_def f)
  have ed: "lowerEdge ?st = 2" "upperEdge ?st = 2"
    using edges_inBounds [OF f(2,3)] by simp_all
  have p: "mode tinyProps = Focusless" "maxLength tinyProps = 3"
    "read_clipboard_text (pastingBridge (js ''hello'')) = Some (js ''hello'')"
    "js ''hello'' \<noteq> []" "maxLength tinyProps < strlen (js ''hello'')"
    by (simp_all add: tinyProps_def pastingBridge_def)
  have r: "replaceSelectionWith (JsString (js ''hello'')) ?st = textState ''abhello'' 7 7"
    unfolding replaceSelectionWith_inBounds [OF i] ed
    by (simp add: f) (simp add: textState_def js_Cons)
  have t: "trim (js ''abhello'') = js ''abhello''"
    by (simp add: trim_def js_Cons isWhiteSpace_def)
  note inst = maxLength_never_limits_edits [where props = tinyProps
      and bridge = "pastingBridge (js ''hello'')" and st = ?st and ins = "js ''hello''"
      and nativeText = ?nt]
  obtain st' where s: "handleGlobalKey ?nt tinyProps (pastingBridge (js ''hello''))
        (ctrlDown ''KeyV'') ?st = Inr (Action_none, st')"
      "maxLength tinyProps < strlen (valueStr st')"
      "valueStr st' = valueStr (replaceSelectionWith (JsString (js ''hello'')) ?st)"
    using inst i p by blast
  have h: "handleGlobalKey ?nt tinyProps (pastingBridge (js ''hello'')) (ctrlDown ''KeyV'') ?st
      = Inr (Action_none, textState ''abhello'' 7 7)"
    using handler_paste [of "pastingBridge (js ''hello'')" "js ''hello''" ?nt ?st] p r
    by (simp add: handleGlobalKey_def)
  have m: "maxLength tinyProps < strlen (valueStr (textState ''abhello'' 7 7))"
    using s h by simp
  have c: "remainingChars tinyProps (textState ''abhello'' 7 7) = - 4"
    using inst [THEN conjunct2, THEN conjunct1] t
    by (simp add: remainingChars_def textState_def p(2))
  show ?thesis using i h m c by simp
qed

subsection \<open>C10\<close>

text \<open>
  C10 holds of \<open>resolveTextFromGlobalEvent\<close>: by \<open>resolveText_printable\<close> it returns
  \<open>null\<close> or a non-empty string in which no code unit is below 0x20 or equal to 0x7F.
  It fails of the text-production step, which has a fallback: when
  \<open>resolveTextFromGlobalEvent\<close> returns \<open>null\<close> the interpreter inserts whatever
  \<open>mapPrintableCharacter\<close> found, and for the code \<open>constructor\<close> the lookup in
  \<open>shiftedSymbolMap\<close> finds the function \<open>Object\<close>, inherited from \<open>Object.prototype\<close>.
  \<open>replaceSelectionWith\<close> then inserts the text the runtime gives that function and moves
  the caret by the function's \<open>length\<close>, which is 1. Where the runtime prints the body of a
  built-in function on a line of its own, the inserted text holds line feeds, code unit
  0x0A. By \<open>text_production_inserts\<close> the step inserts a non-empty string free of control
  characters for every code that is not the name of a member of \<open>Object.prototype\<close>.
\<close>

theorem constructor_key_inserts_function_text:
  "resolveTextFromGlobalEvent multiLineNativeText (keyDown ''constructor'' True None) = None \<and>
   mapPrintableCharacter multiLineNativeText (js ''constructor'') True
     = Some (JsFunction (multiLineNativeText (js ''Object'')) 1) \<and>
   multiLineNativeText (js ''Object'')
     = js ''function Object() {'' @ [0x0A] @ js ''    [native code]'' @ [0x0A] @ js ''}'' \<and>
   handleGlobalKey multiLineNativeText focuslessProps failingBridge
       (keyDown ''constructor'' True None) (textState ''hi'' 2 2)
     = Inr (Action_none,
            (textState ''hi'' 3 3)\<lparr>valueStr := js ''hi'' @ multiLineNativeText (js ''Object'')\<rparr>) \<and>
   hasControlCharacters (multiLineNativeText (js ''Object'')) \<and>
   hasControlCharacters (js ''hi'' @ multiLineNativeText (js ''Object'')) \<and>
   handleGlobalKey oneLineNativeText focuslessProps failingBridge
       (keyDown ''constructor'' True None) (textState ''hi'' 2 2)
     = Inr (Action_none,
            (textState ''hi'' 3 3)\<lparr>valueStr := js ''hifunction Object() { [native code] }''\<rparr>)"
proof -
  let ?ev = "keyDown ''constructor'' True None"
  let ?st = "textState ''hi'' 2 2"
  have g: "getProperty nativeText shiftedSymbolMap (js ''constructor'')
      = Some (JsFunction (nativeText (js ''Object'')) 1)" for nativeText
    by (simp add: getProperty_def shiftedSymbolMap_def objectPrototype_def)
  have m: "mapPrintableCharacter nativeText (js ''constructor'') True
      = Some (JsFunction (nativeText (js ''Object'')) 1)" for nativeText
    by (simp add: mapPrintableCharacter_def test_prefix_class_def g truthy_def)
  have r: "resolveTextFromGlobalEvent nativeText ?ev = None" for nativeText
    by (simp add: resolveTextFromGlobalEvent_def keyDown_def nonTextKeyCodes_def
        test_function_key_def js_Cons Let_def isLetterKey_def test_prefix_class_def
        forceCodeMappedCodes_def shiftedNumberMap_def shiftedSymbolMap_def
        unshiftedSymbolMap_def hasValidRaw_def normalizedText_def strlen_def)
  have p: "phase ?ev = Down \<and> \<not> ctrl ?ev \<and> \<not> meta ?ev \<and> \<not> alt ?ev
      \<and> code ?ev \<notin> set structuralKeyCodes"
    by (simp add: keyDown_def structuralKeyCodes_def)
  have c: "code ?ev = js ''constructor''" "shift ?ev = True"
    by (simp_all add: keyDown_def)
  have s: "ft \<noteq> [] \<Longrightarrow> replaceSelectionWith (JsFunction ft 1) ?st
      = (textState ''hi'' 3 3)\<lparr>valueStr := js ''hi'' @ ft\<rparr>" for ft
    by (cases ft)
       (simp_all add: replaceSelectionWith_def toNormalizedRange_def textState_def
        applyValueAndSelection_def slice_0_take slice_from_drop clamp_def
        Let_def stringOf_def lengthOf_def strlen_def)
  have k: "nativeText (js ''Object'') \<noteq> [] \<Longrightarrow>
      handleGlobalKey nativeText focuslessProps failingBridge ?ev ?st
      = Inr (Action_none,
             (textState ''hi'' 3 3)\<lparr>valueStr := js ''hi'' @ nativeText (js ''Object'')\<rparr>)"
    for nativeText
    using text_production_step [OF p, of nativeText failingBridge ?st] r m s
    by (simp add: c handleGlobalKey_def focuslessProps_def)
  have t: "multiLineNativeText (js ''Object'')
     = js ''function Object() {'' @ [0x0A] @ js ''    [native code]'' @ [0x0A] @ js ''}''"
    "oneLineNativeText (js ''Object'') = js ''function Object() { [native code] }''"
    by (simp_all add: multiLineNativeText_def oneLineNativeText_def js_Cons)
  have e: "multiLineNativeText (js ''Object'') \<noteq> []" "oneLineNativeText (js ''Object'') \<noteq> []"
    by (simp_all add: multiLineNativeText_def oneLineNativeText_def)
  have x: "hasControlCharacters (multiLineNativeText (js ''Object''))"
    "hasControlCharacters (js ''hi'' @ multiLineNativeText (js ''Object''))"
    by (simp_all add: hasControlCharacters_iff noControlCharacters_def multiLineNativeText_def)
  have o: "js ''hi'' @ oneLineNativeText (js ''Object'')
      = js ''hifunction Object() { [native code] }''"
    by (simp add: oneLineNativeText_def js_Cons)
  show ?thesis
    using r [of multiLineNativeText] m [of multiLineNativeText] t(1)
      k [of multiLineNativeText, OF e(1)] k [of oneLineNativeText, OF e(2)] x
    by (simp add: o)
qed

end
